theory Spec2Isabelle
  imports Complex_Main "HOL-Library.Word"
begin

section \<open>Row selector \<open>max\<close> (functions/max.go)\<close>

text \<open>
  Go's \<open>int64\<close> and \<open>uint64\<close> are 64-bit words; \<open>int64\<close> is read in two's complement
  (\<open>sint\<close>), \<open>uint64\<close> as unsigned.  A \<open>float64\<close> is a NaN, an infinity or a finite
  number; the selector only compares floats, so a finite float is modelled by the real
  number it denotes (the two zeros compare equal in Go as well).
\<close>

type_synonym int64 = "64 word"
type_synonym uint64 = "64 word"

datatype float64 = NaN | NegInf | Finite real | PosInf



fun float_gt :: "float64 \<Rightarrow> float64 \<Rightarrow> bool" where
  "float_gt NaN b = False"
| "float_gt a NaN = False"
| "float_gt NegInf b = False"
| "float_gt PosInf b = (b \<noteq> PosInf)"
| "float_gt (Finite x) NegInf = True"
| "float_gt (Finite x) PosInf = False"
| "float_gt (Finite x) (Finite y) = (y < x)"






text \<open>
  A \<open>RowReader\<close> gives access to the rows of the frame under iteration;
  \<open>execute.ReadRow(idx, rr)\<close> captures row \<open>idx\<close>.  The reader is the function from a row
  index to the captured row.
\<close>

type_synonym 'r RowReader = "nat \<Rightarrow> 'r"







text \<open>
  A block reaches the selector frame by frame: the value iterator calls the typed \<open>Do\<close>
  function once per frame, with the frame's values and its row reader.
\<close>

type_synonym ('v, 'r) frames = "('v list \<times> 'r RowReader) list"










section \<open>Column metadata (package execute)\<close>

text \<open>
  \<open>execute.DataType\<close> and \<open>execute.ColMeta\<close>, as the storage reader and the filter use
  them.  The constants of \<open>DataType\<close> carry the prefix \<open>E_\<close>: the evaluator's \<open>ifql.Type\<close>
  has constants of the same names.
\<close>

datatype DataType = E_TInvalid | E_TBool | E_TInt | E_TUInt | E_TFloat | E_TString | E_TTime

record ColMeta =
  Label :: string
  Type :: DataType
  IsTag :: bool
  IsCommon :: bool

section \<open>Filter push-down (functions/filter.go)\<close>

text \<open>
  A Go panic (a failed type assertion, a nil dereference, an index out of range or an
  explicit \<open>panic\<close>) is a value of its own: \<open>Panic\<close> carries what went wrong, \<open>Ok\<close> the
  value of a call that returned.
\<close>

datatype 'a outcome = Ok 'a | Panic string

text \<open>
  \<open>query.Time\<close> and \<open>plan.BoundsSpec\<close>.  \<open>query.Now\<close> is the relative time zero, and the zero
  value of \<open>query.Time\<close> is the absolute time zero.
\<close>

record QueryTime =
  IsRelative :: bool
  Relative :: int
  Absolute :: int

record BoundsSpec =
  Start :: QueryTime
  Stop :: QueryTime

definition Now :: QueryTime where
  "Now = \<lparr>IsRelative = True, Relative = 0, Absolute = 0\<rparr>"

definition zero_time :: QueryTime where
  "zero_time = \<lparr>IsRelative = False, Relative = 0, Absolute = 0\<rparr>"

text \<open>
  \<open>FilterProcedureSpec\<close> holds the filter function \<open>F\<close>.  The procedure spec of the source
  the filter is pushed into, \<open>FromProcedureSpec\<close>, is declared outside the files at hand;
  its fields are those the push-down and its test use.  The type \<open>'f\<close> is the type of
  filter functions; \<open>Filter = nil\<close> is \<open>None\<close>.
\<close>

record 'f FilterProcedureSpec =
  F :: 'f

record 'f FromProcedureSpec =
  Database :: string
  BoundsSet :: bool
  Bounds :: BoundsSpec
  FilterSet :: bool
  Filter :: "'f option"

datatype 'f ProcedureSpec =
    FromSpec "'f FromProcedureSpec"
  | FilterSpec "'f FilterProcedureSpec"
  | RangeSpec BoundsSpec

type_synonym ProcedureID = string

record 'f Procedure =
  proc_ID :: ProcedureID
  proc_Spec :: "'f ProcedureSpec"
  proc_Parents :: "ProcedureID list"
  proc_Children :: "ProcedureID list"

text \<open>
  The planner keeps its procedures in a map from \<open>ProcedureID\<close> to \<open>*Procedure\<close>.  A
  \<open>*Procedure\<close> is the key of the procedure it points to, so that a write through the
  pointer is an update of the map, seen by every holder of the key.
\<close>

type_synonym 'f procedures = "ProcedureID \<rightharpoonup> 'f Procedure"

text \<open>
  \<open>PushDown(root, dup)\<close>.  The type assertions \<open>root.Spec.(*FromProcedureSpec)\<close> panic on a
  spec of another kind.  When the root has a filter already, the duplicate that \<open>dup()\<close>
  returns has its \<open>FilterSet\<close> and \<open>Filter\<close> reset and the function returns; otherwise the
  root itself takes the filter.
\<close>

definition PushDown ::
  "'f FilterProcedureSpec \<Rightarrow> ProcedureID \<Rightarrow> ('f procedures \<Rightarrow> ProcedureID \<times> 'f procedures)
     \<Rightarrow> 'f procedures \<Rightarrow> 'f procedures outcome" where
  "PushDown s rootp dup ps =
     (case ps rootp of
        None \<Rightarrow> Panic ''nil pointer dereference''
      | Some p \<Rightarrow>
          (case proc_Spec p of
             FromSpec selectSpec \<Rightarrow>
               if FilterSet selectSpec then
                 (case dup ps of
                    (dupl, ps') \<Rightarrow>
                      (case ps' dupl of
                         None \<Rightarrow> Panic ''nil pointer dereference''
                       | Some p' \<Rightarrow>
                           (case proc_Spec p' of
                              FromSpec selectSpec' \<Rightarrow>
                                Ok (ps'(dupl \<mapsto> p'\<lparr>proc_Spec :=
                                      FromSpec (selectSpec'\<lparr>FilterSet := False, Filter := None\<rparr>)\<rparr>))
                            | _ \<Rightarrow> Panic ''interface conversion'')))
               else
                 Ok (ps(rootp \<mapsto> p\<lparr>proc_Spec :=
                       FromSpec (selectSpec\<lparr>FilterSet := True, Filter := Some (F s)\<rparr>)\<rparr>))
           | _ \<Rightarrow> Panic ''interface conversion''))"

text \<open>
  Modelled from the spec: the planner's \<open>dup\<close> callback and \<open>plan.ProcedureIDForDuplicate\<close>
  are missing from the files at hand.  The spec has \<open>dup\<close> return a deep copy of the root
  under a fresh id derived from the dupls id by a fixed rule, and names the duplicate of
  \<open>from\<close> \<open>from_dup\<close>.  Procedures are values here, so the copy shares nothing with the
  original.
\<close>

definition ProcedureIDForDuplicate :: "ProcedureID \<Rightarrow> ProcedureID" where
  "ProcedureIDForDuplicate i = i @ ''_dup''"

definition dup_procedure :: "ProcedureID \<Rightarrow> 'f procedures \<Rightarrow> ProcedureID \<times> 'f procedures" where
  "dup_procedure rootp ps =
     (let n = ProcedureIDForDuplicate rootp in
      case ps rootp of
        None \<Rightarrow> (n, ps)
      | Some p \<Rightarrow> (n, ps(n \<mapsto> p\<lparr>proc_ID := n\<rparr>)))"

text \<open>
  The plan of \<open>TestFilter_PushDown_Branch\<close> once \<open>range\<close> has been pushed into \<open>from\<close>:
  the source \<open>from\<close> with its bounds set, and the two filters \<open>filterA\<close> and \<open>filterB\<close>
  (\<open>_measurement != "A"\<close> and \<open>_measurement != "B"\<close>) still to be pushed down, in this order.
\<close>

definition branch_from :: "string Procedure" where
  "branch_from =
     \<lparr>proc_ID = ''from'',
      proc_Spec = FromSpec \<lparr>Database = ''mydb'', BoundsSet = True,
                    Bounds = \<lparr>Start = zero_time, Stop = Now\<rparr>, FilterSet = False, Filter = None\<rparr>,
      proc_Parents = [], proc_Children = []\<rparr>"

definition branch_plan :: "string procedures" where
  "branch_plan = [''from'' \<mapsto> branch_from]"

definition filterA :: "string FilterProcedureSpec" where
  "filterA = \<lparr>F = ''_measurement != A''\<rparr>"

definition filterB :: "string FilterProcedureSpec" where
  "filterB = \<lparr>F = ''_measurement != B''\<rparr>"

text \<open>Running the two push-downs of the test, each with the planner's \<open>dup\<close> of \<open>from\<close>.\<close>

definition push_both :: "string procedures outcome" where
  "push_both =
     (case PushDown filterA ''from'' (dup_procedure ''from'') branch_plan of
        Panic m \<Rightarrow> Panic m
      | Ok ps \<Rightarrow> PushDown filterB ''from'' (dup_procedure ''from'') ps)"

text \<open>What the test wants for a source of the final plan that has absorbed filter \<open>f\<close>.\<close>

definition wanted_from :: "ProcedureID \<Rightarrow> string \<Rightarrow> string Procedure" where
  "wanted_from i f =
     \<lparr>proc_ID = i,
      proc_Spec = FromSpec \<lparr>Database = ''mydb'', BoundsSet = True,
                    Bounds = \<lparr>Start = zero_time, Stop = Now\<rparr>, FilterSet = True, Filter = Some f\<rparr>,
      proc_Parents = [], proc_Children = []\<rparr>"

section \<open>Storage reader and block iterator (execute/storage_reader.go)\<close>

subsection \<open>The wire\<close>

text \<open>
  The \<open>storage\<close> package, which declares \<open>ReadRequest\<close>, \<open>ReadResponse\<close> and its frames, is
  outside the files at hand.  A frame is a protobuf one-of; the kinds are the six the
  interface description lists, each point frame with its \<open>Timestamps\<close> and \<open>Values\<close>.
  \<open>frame.GetSeries() != nil\<close> holds exactly for a \<open>Series\<close> frame, and so on.
\<close>

type_synonym Time = int64

datatype Frame =
    Series "(string \<times> string) list"
  | IntegerPoints "int64 list" "int64 list"
  | FloatPoints "int64 list" "float64 list"
  | StringPoints "int64 list" "string list"
  | BooleanPoints "int64 list" "bool list"
  | UnsignedPoints "int64 list" "uint64 list"

text \<open>
  What \<open>stream.RecvMsg\<close> can return besides a message: the clean end of the stream,
  \<open>io.EOF\<close>, or a transport error.
\<close>

datatype recv_error = EOF | TransportError string

text \<open>
  A stream still has a list of messages to deliver, each a list of frames, and then ends:
  once the messages are used up every \<open>RecvMsg\<close> returns the stream's final error.
\<close>

record Stream =
  pending :: "Frame list list"
  final :: recv_error

definition RecvMsg :: "Stream \<Rightarrow> (recv_error + Frame list) \<times> Stream" where
  "RecvMsg st =
     (case pending st of
        [] \<Rightarrow> (Inl (final st), st)
      | m # ms \<Rightarrow> (Inr m, st\<lparr>pending := ms\<rparr>))"

subsection \<open>Opening a read\<close>

record 'p ReadSpec =
  rs_Database :: string
  rs_Predicate :: "'p option"
  rs_Limit :: int64
  rs_Descending :: bool

record 'p ReadRequest =
  req_Database :: string
  req_Predicate :: "'p option"
  req_Limit :: int64
  req_Descending :: bool
  req_Start :: int64
  req_End :: int64

text \<open>\<open>var req storage.ReadRequest\<close>: every field has Go's zero value.\<close>

definition zero_ReadRequest :: "'p ReadRequest" where
  "zero_ReadRequest =
     \<lparr>req_Database = [], req_Predicate = None, req_Limit = 0, req_Descending = False,
      req_Start = 0, req_End = 0\<rparr>"

record Bounds =
  b_Start :: Time
  b_Stop :: Time

record readState =
  stream :: Stream
  rep_Frames :: "Frame list"

record storageBlockIterator =
  bi_bounds :: Bounds
  bi_data :: readState

text \<open>
  The reader keeps the connections it has dialled.  Dialling and opening the RPC stream are
  the transport's: \<open>dial\<close> is what \<open>yarpc.Dial\<close> returns, and \<open>rpc conn req\<close> what the storage
  client's \<open>Read\<close> returns for the request it is sent.
\<close>

record 'c storageReader =
  connections :: "'c list"

definition connect :: "(string + 'c) \<Rightarrow> 'c storageReader \<Rightarrow> (string + 'c) \<times> 'c storageReader" where
  "connect dial sr =
     (case dial of
        Inl err \<Rightarrow> (Inl err, sr)
      | Inr conn \<Rightarrow> (Inr conn, sr\<lparr>connections := connections sr @ [conn]\<rparr>))"

text \<open>
  \<open>Read\<close> returns the request it has sent, if any, beside its result and the reader.  The
  assignment of \<open>req.Limit\<close> is commented out in the source, so the field keeps its zero
  value.
\<close>

definition Read ::
  "(string + 'c) \<Rightarrow> ('c \<Rightarrow> 'p ReadRequest \<Rightarrow> string + Stream) \<Rightarrow> 'c storageReader
     \<Rightarrow> 'p ReadSpec \<Rightarrow> Time \<Rightarrow> Time
     \<Rightarrow> 'p ReadRequest option \<times> (string + storageBlockIterator) \<times> 'c storageReader" where
  "Read dial rpc sr readSpec start stop =
     (case connect dial sr of
        (Inl err, sr') \<Rightarrow> (None, Inl err, sr')
      | (Inr conn, sr') \<Rightarrow>
          (let req = zero_ReadRequest
                 \<lparr>req_Database := rs_Database readSpec,
                  req_Predicate := rs_Predicate readSpec,
                  req_Descending := rs_Descending readSpec,
                  req_Start := start,
                  req_End := stop\<rparr>
           in case rpc conn req of
                Inl err \<Rightarrow> (Some req, Inl err, sr')
              | Inr st \<Rightarrow>
                  (Some req,
                   Inr \<lparr>bi_bounds = \<lparr>b_Start = start, b_Stop = stop\<rparr>,
                        bi_data = \<lparr>stream = st, rep_Frames = []\<rparr>\<rparr>,
                   sr')))"

subsection \<open>Reading frames\<close>

datatype responseType = seriesType | integerPointsType | floatPointsType

text \<open>\<open>peek\<close> reads \<open>s.rep.Frames[0]\<close>; an empty slice is an index out of range.\<close>

definition peek :: "readState \<Rightarrow> responseType outcome" where
  "peek s =
     (case rep_Frames s of
        [] \<Rightarrow> Panic ''index out of range''
      | frame # _ \<Rightarrow>
          (case frame of
             Series _ \<Rightarrow> Ok seriesType
           | IntegerPoints _ _ \<Rightarrow> Ok integerPointsType
           | FloatPoints _ _ \<Rightarrow> Ok floatPointsType
           | _ \<Rightarrow> Panic ''read response frame should have one of series, integerPoints, or floatPoints''))"

text \<open>
  \<open>more\<close>: frames left over from the last message, or else the next message of the
  stream.  Both failures of \<open>RecvMsg\<close>, the end of the stream and any other error, return
  \<open>false\<close>; the error goes nowhere.
\<close>

definition more_frames :: "readState \<Rightarrow> bool \<times> readState" where
  "more_frames s =
     (if length (rep_Frames s) > 0 then (True, s)
      else
        (case RecvMsg (stream s) of
           (Inl err, st) \<Rightarrow>
             if err = EOF then (False, s\<lparr>stream := st\<rparr>)
             else (False, s\<lparr>stream := st\<rparr>)
         | (Inr frames, st) \<Rightarrow> (True, s\<lparr>stream := st, rep_Frames := frames\<rparr>)))"

definition next_frame :: "readState \<Rightarrow> (Frame \<times> readState) outcome" where
  "next_frame s =
     (case rep_Frames s of
        [] \<Rightarrow> Panic ''index out of range''
      | frame # frames \<Rightarrow> Ok (frame, s\<lparr>rep_Frames := frames\<rparr>))"

subsection \<open>The value iterator of a block\<close>

text \<open>
  The buffers of the iterator.  \<open>colBufs\<close> holds values of type \<open>interface{}\<close>: nil, or one
  of the typed buffers.  A buffer is the list of its elements; its spare capacity, which
  only decides whether \<open>advance\<close> allocates, is left out.
\<close>

datatype colBuf = NilBuf | TimeBuf "Time list" | FloatBuf "float64 list"
  | StringBuf "string list" | IntBuf "int64 list"

record storageBlockValueIterator =
  it_colMeta :: "ColMeta \<times> ColMeta"
  it_col :: nat
  it_colBufs :: "colBuf \<times> colBuf"
  it_timeBuf :: "Time list"
  it_floatBuf :: "float64 list"
  it_stringBuf :: "string list"
  it_intBuf :: "int64 list"

text \<open>
  \<open>advance\<close>.  Every branch of the \<open>switch\<close> in the body of its loop returns, and \<open>peek\<close>
  returns one of the three response types or panics, so the body runs at most once.  The
  loop that fills the buffers reads \<open>p.Values[i]\<close> for every index of \<open>p.Timestamps\<close>: a
  frame with fewer values than timestamps is an index out of range.  The iterator shares
  the read state with its block iterator, so the state is passed in and out.
\<close>

definition advance ::
  "storageBlockValueIterator \<Rightarrow> readState \<Rightarrow> (bool \<times> storageBlockValueIterator \<times> readState) outcome" where
  "advance b s =
     (case more_frames s of
        (False, s1) \<Rightarrow> Ok (False, b, s1)
      | (True, s1) \<Rightarrow>
          (let b1 = b\<lparr>it_timeBuf := [], it_floatBuf := [], it_stringBuf := [], it_intBuf := []\<rparr> in
           case peek s1 of
             Panic m \<Rightarrow> Panic m
           | Ok seriesType \<Rightarrow> Ok (False, b1, s1)
           | Ok integerPointsType \<Rightarrow>
               (case next_frame s1 of
                  Panic m \<Rightarrow> Panic m
                | Ok (frame, s2) \<Rightarrow>
                    (case frame of
                       IntegerPoints ts vs \<Rightarrow>
                         if length ts \<le> length vs then
                           Ok (True,
                               b1\<lparr>it_timeBuf := ts, it_intBuf := take (length ts) vs,
                                  it_colBufs := (TimeBuf ts, IntBuf (take (length ts) vs))\<rparr>,
                               s2)
                         else Panic ''index out of range''
                     | _ \<Rightarrow> Panic ''nil pointer dereference''))
           | Ok floatPointsType \<Rightarrow>
               (case next_frame s1 of
                  Panic m \<Rightarrow> Panic m
                | Ok (frame, s2) \<Rightarrow>
                    (case frame of
                       FloatPoints ts vs \<Rightarrow>
                         if length ts \<le> length vs then
                           Ok (True,
                               b1\<lparr>it_timeBuf := ts, it_floatBuf := take (length ts) vs,
                                  it_colBufs := (TimeBuf ts, FloatBuf (take (length ts) vs))\<rparr>,
                               s2)
                         else Panic ''index out of range''
                     | _ \<Rightarrow> Panic ''nil pointer dereference''))))"

text \<open>The number of frames the stream can still deliver, counting each message once more.\<close>

definition frames_left :: "readState \<Rightarrow> nat" where
  "frames_left s = length (rep_Frames s) + sum_list (map (\<lambda>m. Suc (length m)) (pending (stream s)))"

text \<open>
  \<open>DoFloat\<close>, \<open>DoString\<close> and \<open>DoTime\<close> of the iterator differ in the column type they
  assert.  \<open>checkColType\<close> panics unless the column has that type; the loop hands the
  buffer of the column to the callback after every successful \<open>advance\<close>, and its type
  assertion panics on a buffer of another type.  The callbacks of the source are arbitrary;
  here the buffers handed over are collected in \<open>acc\<close>.  After the loop the iterator closes
  the \<open>done\<close> channel of its block: \<open>True\<close> in the result.
\<close>

definition buf_has_type :: "DataType \<Rightarrow> colBuf \<Rightarrow> bool" where
  "buf_has_type t buf =
     (case buf of
        TimeBuf _ \<Rightarrow> t = E_TTime
      | FloatBuf _ \<Rightarrow> t = E_TFloat
      | StringBuf _ \<Rightarrow> t = E_TString
      | IntBuf _ \<Rightarrow> t = E_TInt
      | NilBuf \<Rightarrow> False)"

definition col_get :: "nat \<Rightarrow> 'a \<times> 'a \<Rightarrow> 'a outcome" where
  "col_get j p = (if j = 0 then Ok (fst p) else if j = 1 then Ok (snd p) else Panic ''index out of range'')"

lemma advance_frames_left:
  "advance b s = Ok (True, b', s') \<Longrightarrow> frames_left s' < frames_left s"
  apply (auto simp: advance_def Let_def next_frame_def peek_def
      split: prod.splits bool.splits outcome.splits responseType.splits list.splits Frame.splits if_splits)
     apply (auto simp: more_frames_def frames_left_def RecvMsg_def
      split: if_splits list.splits sum.splits prod.splits)
  done

function drain ::
  "DataType \<Rightarrow> storageBlockValueIterator \<Rightarrow> readState \<Rightarrow> colBuf list
     \<Rightarrow> (colBuf list \<times> storageBlockValueIterator \<times> readState) outcome" where
  "drain t b s acc =
     (case advance b s of
        Panic m \<Rightarrow> Panic m
      | Ok (False, b', s') \<Rightarrow> Ok (acc, b', s')
      | Ok (True, b', s') \<Rightarrow>
          (case col_get (it_col b') (it_colBufs b') of
             Panic m \<Rightarrow> Panic m
           | Ok buf \<Rightarrow>
               if buf_has_type t buf then drain t b' s' (acc @ [buf])
               else Panic ''interface conversion''))"
  by pat_completeness auto
termination
  by (relation "measure (\<lambda>(t, b, s, acc). frames_left s)") (auto dest: advance_frames_left)

text \<open>
  The typed accessor: \<open>DoFloat\<close> is \<open>iter_Do E_TFloat\<close>, \<open>DoString\<close> is \<open>iter_Do E_TString\<close>
  and \<open>DoTime\<close> is \<open>iter_Do E_TTime\<close>.  \<open>isclosed\<close> tells whether the \<open>done\<close> channel of the
  block is closed already; closing it twice panics.
\<close>

definition iter_Do ::
  "DataType \<Rightarrow> storageBlockValueIterator \<Rightarrow> readState \<Rightarrow> bool
     \<Rightarrow> (colBuf list \<times> storageBlockValueIterator \<times> readState \<times> bool) outcome" where
  "iter_Do t b s isclosed =
     (case col_get (it_col b) (it_colMeta b) of
        Panic m \<Rightarrow> Panic m
      | Ok cm \<Rightarrow>
          if Type cm \<noteq> t then Panic ''column is not of the asserted type''
          else
            (case drain t b s [] of
               Panic m \<Rightarrow> Panic m
             | Ok (acc, b', s') \<Rightarrow>
                 if isclosed then Panic ''close of closed channel''
                 else Ok (acc, b', s', True)))"

subsection \<open>The block iterator\<close>

record storageBlock =
  blk_bounds :: Bounds
  blk_tags :: "string \<rightharpoonup> string"
  blk_colMeta :: "ColMeta \<times> ColMeta"

text \<open>\<open>Col(c)\<close>: a new iterator over column \<open>c\<close>, its buffers nil.\<close>

definition Col :: "storageBlock \<Rightarrow> nat \<Rightarrow> storageBlockValueIterator" where
  "Col blk c =
     \<lparr>it_colMeta = blk_colMeta blk, it_col = c, it_colBufs = (NilBuf, NilBuf),
      it_timeBuf = [], it_floatBuf = [], it_stringBuf = [], it_intBuf = []\<rparr>"

definition Times :: "storageBlock \<Rightarrow> storageBlockValueIterator" where
  "Times blk = Col blk 0"

definition Values :: "storageBlock \<Rightarrow> storageBlockValueIterator" where
  "Values blk = Col blk 1"

text \<open>The tag map of a series frame: a later tag of the same key replaces an earlier one.\<close>

definition series_tags :: "(string \<times> string) list \<Rightarrow> (string \<rightharpoonup> string)" where
  "series_tags ts = foldl (\<lambda>tags (k, v). tags(k \<mapsto> v)) Map.empty ts"

text \<open>
  The consumer \<open>f\<close> of \<open>Do\<close> is handed a block that shares the read state; it returns the
  read state as it has left it and whether the \<open>done\<close> channel of the block has been closed.
  \<open>block.wait()\<close> returns only once the channel is closed.

  \<open>Do\<close> itself returns nothing and has no error result: what can be seen of a run is the
  list of blocks handed to \<open>f\<close>, kept in \<open>delivered\<close>, and whether the run returns (\<open>Some\<close>),
  panics, or neither returns nor panics (\<open>None\<close>).  The column metadata \<open>TimeCol\<close> and
  \<open>ValueCol\<close> of package \<open>execute\<close> are the parameter \<open>cols\<close>.
\<close>

type_synonym consumer = "storageBlock \<Rightarrow> readState \<Rightarrow> (bool \<times> readState) outcome"

partial_function (option) Do_loop ::
  "ColMeta \<times> ColMeta \<Rightarrow> consumer \<Rightarrow> Bounds \<Rightarrow> readState \<Rightarrow> storageBlock list
     \<Rightarrow> (storageBlock list \<times> readState) outcome option" where
  "Do_loop cols f bounds s delivered =
     (case more_frames s of
        (m, s1) \<Rightarrow>
          if \<not> m then Some (Ok (delivered, s1))
          else
          (case peek s1 of
             Panic m \<Rightarrow> Some (Panic m)
           | Ok p \<Rightarrow>
               if p \<noteq> seriesType then Do_loop cols f bounds s1 delivered
               else
                 (case next_frame s1 of
                    Panic m \<Rightarrow> Some (Panic m)
                  | Ok (frame, s2) \<Rightarrow>
                      (case frame of
                         Series tags \<Rightarrow>
                           (let block = \<lparr>blk_bounds = bounds, blk_tags = series_tags tags,
                                         blk_colMeta = cols\<rparr>
                            in case f block s2 of
                                 Panic m \<Rightarrow> Some (Panic m)
                               | Ok (isclosed, s3) \<Rightarrow>
                                   if isclosed then Do_loop cols f bounds s3 (delivered @ [block])
                                   else None)
                       | _ \<Rightarrow> Some (Panic ''nil pointer dereference'')))))"

definition Do ::
  "ColMeta \<times> ColMeta \<Rightarrow> consumer \<Rightarrow> storageBlockIterator
     \<Rightarrow> (storageBlock list \<times> readState) outcome option" where
  "Do cols f bi = Do_loop cols f (bi_bounds bi) (bi_data bi) []"

text \<open>A consumer that reads the values of its block to the end with \<open>DoFloat\<close>.\<close>

definition read_float_values :: consumer where
  "read_float_values blk s =
     (case iter_Do E_TFloat (Values blk) s False of
        Panic m \<Rightarrow> Panic m
      | Ok (acc, b, s', isclosed) \<Rightarrow> Ok (isclosed, s'))"

subsection \<open>Frames and example streams\<close>

text \<open>
  The frame kinds that \<open>peek\<close> knows, and the frames whose \<open>Timestamps\<close> and \<open>Values\<close> are
  parallel arrays.
\<close>

fun known_kind :: "Frame \<Rightarrow> bool" where
  "known_kind (Series _) = True"
| "known_kind (IntegerPoints _ _) = True"
| "known_kind (FloatPoints _ _) = True"
| "known_kind (StringPoints _ _) = False"
| "known_kind (BooleanPoints _ _) = False"
| "known_kind (UnsignedPoints _ _) = False"

fun parallel_arrays :: "Frame \<Rightarrow> bool" where
  "parallel_arrays (Series _) = True"
| "parallel_arrays (IntegerPoints ts vs) = (length ts = length vs)"
| "parallel_arrays (FloatPoints ts vs) = (length ts = length vs)"
| "parallel_arrays (StringPoints ts vs) = (length ts = length vs)"
| "parallel_arrays (BooleanPoints ts vs) = (length ts = length vs)"
| "parallel_arrays (UnsignedPoints ts vs) = (length ts = length vs)"

definition TimeCol :: ColMeta where
  "TimeCol = \<lparr>Label = ''time'', Type = E_TTime, IsTag = False, IsCommon = False\<rparr>"

definition ValueCol :: ColMeta where
  "ValueCol = \<lparr>Label = ''value'', Type = E_TFloat, IsTag = False, IsCommon = False\<rparr>"

text \<open>
  A stream that delivers one message, a series with two float points, and then fails with
  the error \<open>err\<close>; and a block iterator over it.
\<close>

definition one_series :: "recv_error \<Rightarrow> Stream" where
  "one_series err =
     \<lparr>pending = [[Series [(''host'', ''a'')], FloatPoints [1, 2] [Finite 1, Finite 2]]],
      final = err\<rparr>"

definition one_series_iterator :: "recv_error \<Rightarrow> storageBlockIterator" where
  "one_series_iterator err =
     \<lparr>bi_bounds = \<lparr>b_Start = 0, b_Stop = 10\<rparr>,
      bi_data = \<lparr>stream = one_series err, rep_Frames = []\<rparr>\<rparr>"

definition one_series_block :: storageBlock where
  "one_series_block =
     \<lparr>blk_bounds = \<lparr>b_Start = 0, b_Stop = 10\<rparr>, blk_tags = [''host'' \<mapsto> ''a''],
      blk_colMeta = (TimeCol, ValueCol)\<rparr>"

text \<open>A read spec that asks for at most five points, and a transport that always succeeds.\<close>

definition limit_spec :: "string ReadSpec" where
  "limit_spec = \<lparr>rs_Database = ''mydb'', rs_Predicate = None, rs_Limit = 5, rs_Descending = True\<rparr>"

definition ok_rpc :: "nat \<Rightarrow> string ReadRequest \<Rightarrow> string + Stream" where
  "ok_rpc conn req = Inr (one_series EOF)"

section \<open>Filter transformation (functions/filter.go)\<close>

subsection \<open>What the filter uses of package execute\<close>

text \<open>
  A value of a row is a cell of one of the six column types.  A block is delivered frame by
  frame, as its \<open>Times().DoTime\<close> calls back once per frame; a frame is the list of its
  rows, a row the list of its cells, one per column, and the \<open>RowReader\<close> of a frame gives
  access to these rows.
\<close>

datatype cell = CBool bool | CInt int64 | CUInt uint64 | CFloat float64 | CString string | CTime Time

fun cell_type :: "cell \<Rightarrow> DataType" where
  "cell_type (CBool _) = E_TBool"
| "cell_type (CInt _) = E_TInt"
| "cell_type (CUInt _) = E_TUInt"
| "cell_type (CFloat _) = E_TFloat"
| "cell_type (CString _) = E_TString"
| "cell_type (CTime _) = E_TTime"

type_synonym row = "cell list"

record Block =
  fb_Bounds :: Bounds
  fb_Tags :: "string \<rightharpoonup> string"
  fb_Cols :: "ColMeta list"
  fb_frames :: "row list list"

text \<open>
  The typed accessors \<open>AtBool(i, j)\<close>, \<open>AtInt(i, j)\<close>, ... of a row reader: \<open>At t i j\<close> is the
  accessor for the type \<open>t\<close>.  An index out of range and a cell of another type panic.
\<close>

definition At :: "DataType \<Rightarrow> nat \<Rightarrow> nat \<Rightarrow> row list \<Rightarrow> cell outcome" where
  "At t i j rr =
     (if i < length rr \<and> j < length (rr ! i) then
        (if cell_type (rr ! i ! j) = t then Ok (rr ! i ! j)
         else Panic ''column is not of the asserted type'')
      else Panic ''index out of range'')"

text \<open>
  \<open>execute.ValueForRow(i, j, rr)\<close>: the value of row \<open>i\<close> in column \<open>j\<close>, whatever its
  type.
\<close>

definition ValueForRow :: "nat \<Rightarrow> nat \<Rightarrow> row list \<Rightarrow> cell outcome" where
  "ValueForRow i j rr =
     (if i < length rr \<and> j < length (rr ! i) then Ok (rr ! i ! j)
      else Panic ''index out of range'')"

text \<open>
  A block builder holds its columns and the cells appended to each.  \<open>AppendBool(j, v)\<close>,
  \<open>AppendInt(j, v)\<close>, ... append a cell to column \<open>j\<close>.  \<open>AddBlockCols\<close> gives a new
  builder the columns of a block.
\<close>

record BlockBuilder =
  bb_Cols :: "ColMeta list"
  bb_data :: "cell list list"

definition new_builder :: BlockBuilder where
  "new_builder = \<lparr>bb_Cols = [], bb_data = []\<rparr>"

definition AddBlockCols :: "Block \<Rightarrow> BlockBuilder \<Rightarrow> BlockBuilder" where
  "AddBlockCols b bld =
     bld\<lparr>bb_Cols := bb_Cols bld @ fb_Cols b,
         bb_data := bb_data bld @ replicate (length (fb_Cols b)) []\<rparr>"

definition Append :: "nat \<Rightarrow> cell \<Rightarrow> BlockBuilder \<Rightarrow> BlockBuilder outcome" where
  "Append j v bld =
     (if j < length (bb_data bld) then Ok (bld\<lparr>bb_data := (bb_data bld)[j := bb_data bld ! j @ [v]]\<rparr>)
      else Panic ''index out of range'')"

text \<open>
  Modelled from the spec: the builder cache of a dataset and \<open>ToBlockKey\<close> are outside
  the files at hand.  The spec keys the cache by the bounds and the common tags of a block:
  \<open>BlockBuilder(b)\<close> returns the builder of the block's key and whether it is new.  The
  builder is shared with the cache, so the cache is updated whenever the builder is.
\<close>

type_synonym BlockKey = "Bounds \<times> (string \<rightharpoonup> string)"

type_synonym BlockBuilderCache = "BlockKey \<rightharpoonup> BlockBuilder"

definition ToBlockKey :: "Block \<Rightarrow> BlockKey" where
  "ToBlockKey b = (fb_Bounds b, fb_Tags b)"

definition cache_BlockBuilder :: "BlockBuilderCache \<Rightarrow> Block \<Rightarrow> BlockBuilder \<times> bool" where
  "cache_BlockBuilder cache b =
     (case cache (ToBlockKey b) of
        Some bld \<Rightarrow> (bld, False)
      | None \<Rightarrow> (new_builder, True))"

text \<open>
  An arrow function has parameters and a body; the body is looked at by the expression
  compiler only.  A compiled expression has a type and evaluates on a scope to
  \<open>(bool, error)\<close>, the error nil (\<open>None\<close>) or not.
\<close>

record 'e ArrowFunctionExpression =
  Params :: "string list"
  Body :: 'e

record ObjectProperty =
  Object :: string
  Property :: string

type_synonym Scope = "ObjectProperty \<rightharpoonup> cell"

record CompiledExpression =
  ce_Type :: DataType
  EvalBool :: "Scope \<Rightarrow> bool \<times> string option"

text \<open>
  The rest of package \<open>execute\<close> that the filter calls, as parameters: the list
  \<open>ValueDataTypes\<close>, the label \<open>ValueColLabel\<close>, \<open>ObjectProperties\<close>, \<open>CompileExpression\<close>
  and \<open>ValueIdx\<close>.  Their errors are messages.
\<close>

record 'e execute_pkg =
  ValueDataTypes :: "DataType list"
  ValueColLabel :: string
  ObjectProperties :: "'e ArrowFunctionExpression \<Rightarrow> string + ObjectProperty list"
  CompileExpression :: "'e ArrowFunctionExpression \<Rightarrow> (ObjectProperty \<rightharpoonup> DataType)
                          \<Rightarrow> string + CompiledExpression"
  ValueIdx :: "ColMeta list \<Rightarrow> int"

subsection \<open>The transformation\<close>

datatype filter_error =
    External string
  | SingleParameter "string list"
  | NotBoolean
  | DoesNotSupportType DataType filter_error

record expressionOrError =
  Err :: "filter_error option"
  Expr :: "CompiledExpression option"

record filterTransformation =
  ft_properties :: "ObjectProperty list"
  ft_scope :: Scope
  ft_scopeCols :: "string \<rightharpoonup> int"
  ft_ces :: "DataType \<rightharpoonup> expressionOrError"

text \<open>
  The loop of \<open>NewFilterTransformation\<close> over \<open>ValueDataTypes\<close>: one compilation per value
  type, with \<open>_value\<close> of that type; the error of a failed compilation is stored, not
  returned.
\<close>

fun compile_all ::
  "'e execute_pkg \<Rightarrow> 'e ArrowFunctionExpression \<Rightarrow> ObjectProperty \<Rightarrow> DataType list
     \<Rightarrow> (ObjectProperty \<rightharpoonup> DataType) \<Rightarrow> (DataType \<rightharpoonup> expressionOrError)
     \<Rightarrow> (DataType \<rightharpoonup> expressionOrError)" where
  "compile_all X fn valueOP [] types ces = ces"
| "compile_all X fn valueOP (typ # typs) types ces =
     (let types1 = types(valueOP \<mapsto> typ) in
      case CompileExpression X fn types1 of
        Inl err \<Rightarrow>
          compile_all X fn valueOP typs types1 (ces(typ \<mapsto> \<lparr>Err = Some (External err), Expr = None\<rparr>))
      | Inr ce \<Rightarrow>
          if ce_Type ce \<noteq> E_TBool then
            compile_all X fn valueOP typs types1 (ces(typ \<mapsto> \<lparr>Err = Some NotBoolean, Expr = None\<rparr>))
          else
            compile_all X fn valueOP typs types1 (ces(typ \<mapsto> \<lparr>Err = None, Expr = Some ce\<rparr>)))"

definition property_types :: "ObjectProperty list \<Rightarrow> ObjectProperty \<Rightarrow> (ObjectProperty \<rightharpoonup> DataType)" where
  "property_types properties valueOP =
     foldl (\<lambda>types op. if op \<noteq> valueOP then types(op \<mapsto> E_TString) else types) Map.empty properties"

definition NewFilterTransformation ::
  "'e execute_pkg \<Rightarrow> 'e ArrowFunctionExpression \<Rightarrow> filter_error + filterTransformation" where
  "NewFilterTransformation X fn =
     (if length (Params fn) \<noteq> 1 then Inl (SingleParameter (Params fn))
      else
        (let objectName = Params fn ! 0 in
         case ObjectProperties X fn of
           Inl err \<Rightarrow> Inl (External err)
         | Inr properties \<Rightarrow>
             (let valueOP = \<lparr>Object = objectName, Property = ''_value''\<rparr>;
                  types = property_types properties valueOP;
                  ces = compile_all X fn valueOP (ValueDataTypes X) types Map.empty
              in Inr \<lparr>ft_properties = properties, ft_scope = Map.empty,
                      ft_scopeCols = Map.empty, ft_ces = ces\<rparr>)))"

text \<open>
  The preparation of \<open>scopeCols\<close> in \<open>Process\<close>: the value column is entered under
  \<open>_value\<close>, any other column under its label if a property of the filter function has
  that name.  \<open>scopeCols\<close> is a Go map to \<open>int\<close>: a missing key reads as 0.
\<close>

fun prepare_scopeCols ::
  "string \<Rightarrow> ObjectProperty list \<Rightarrow> int \<Rightarrow> (nat \<times> ColMeta) list \<Rightarrow> (string \<rightharpoonup> int) \<Rightarrow> (string \<rightharpoonup> int)" where
  "prepare_scopeCols vlabel properties valueIdx [] sc = sc"
| "prepare_scopeCols vlabel properties valueIdx ((j, c) # cs) sc =
     (if Label c = vlabel then prepare_scopeCols vlabel properties valueIdx cs (sc(''_value'' \<mapsto> valueIdx))
      else if \<exists>op \<in> set properties. Property op = Label c
        then prepare_scopeCols vlabel properties valueIdx cs (sc(Label c \<mapsto> int j))
        else prepare_scopeCols vlabel properties valueIdx cs sc)"

definition scopeCol :: "(string \<rightharpoonup> int) \<Rightarrow> string \<Rightarrow> int" where
  "scopeCol sc name = (case sc name of None \<Rightarrow> 0 | Some j \<Rightarrow> j)"

text \<open>\<open>for _, op := range t.properties { t.scope[op] = ValueForRow(i, t.scopeCols[op.Property], rr) }\<close>\<close>

fun populate ::
  "ObjectProperty list \<Rightarrow> (string \<rightharpoonup> int) \<Rightarrow> nat \<Rightarrow> row list \<Rightarrow> Scope \<Rightarrow> Scope outcome" where
  "populate [] sc i rr scope = Ok scope"
| "populate (op # ops) sc i rr scope =
     (if scopeCol sc (Property op) < 0 then Panic ''index out of range''
      else
        (case ValueForRow i (nat (scopeCol sc (Property op))) rr of
           Panic m \<Rightarrow> Panic m
         | Ok v \<Rightarrow> populate ops sc i rr (scope(op \<mapsto> v))))"

text \<open>
  The loop that appends row \<open>i\<close> to the builder: a common column is skipped, any other
  column is read with the accessor of its type and appended; a column of no known type
  panics (\<open>PanicUnknownType\<close>).
\<close>

fun append_row :: "(nat \<times> ColMeta) list \<Rightarrow> nat \<Rightarrow> row list \<Rightarrow> BlockBuilder \<Rightarrow> BlockBuilder outcome" where
  "append_row [] i rr bld = Ok bld"
| "append_row ((j, c) # cs) i rr bld =
     (if IsCommon c then append_row cs i rr bld
      else if Type c = E_TInvalid then Panic ''unknown type''
      else
        (case At (Type c) i j rr of
           Panic m \<Rightarrow> Panic m
         | Ok v \<Rightarrow>
             (case Append j v bld of
                Panic m \<Rightarrow> Panic m
              | Ok bld1 \<Rightarrow> append_row cs i rr bld1)))"

text \<open>
  The callback of \<open>DoTime\<close>, over the row indices of one frame.  The state is the scope,
  the builder and the log.  A row whose predicate does not pass is skipped, its error, if
  any, logged; a row whose predicate passes is appended.  A nil compiled expression
  panics when it is evaluated.
\<close>

fun filter_rows ::
  "ObjectProperty list \<Rightarrow> (string \<rightharpoonup> int) \<Rightarrow> CompiledExpression option \<Rightarrow> ColMeta list
     \<Rightarrow> row list \<Rightarrow> nat list \<Rightarrow> Scope \<times> BlockBuilder \<times> string list
     \<Rightarrow> (Scope \<times> BlockBuilder \<times> string list) outcome" where
  "filter_rows properties sc ce cols rr [] st = Ok st"
| "filter_rows properties sc ce cols rr (i # idxs) (scope, bld, lg) =
     (case populate properties sc i rr scope of
        Panic m \<Rightarrow> Panic m
      | Ok scope1 \<Rightarrow>
          (case ce of
             None \<Rightarrow> Panic ''nil pointer dereference''
           | Some c \<Rightarrow>
               (case EvalBool c scope1 of
                  (pass, err) \<Rightarrow>
                    if \<not> pass then
                      (case err of
                         Some e \<Rightarrow>
                           filter_rows properties sc ce cols rr idxs
                             (scope1, bld, lg @ [''failed to evaluate expression: '' @ e])
                       | None \<Rightarrow> filter_rows properties sc ce cols rr idxs (scope1, bld, lg))
                    else
                      (case append_row (enumerate 0 cols) i rr bld of
                         Panic m \<Rightarrow> Panic m
                       | Ok bld1 \<Rightarrow> filter_rows properties sc ce cols rr idxs (scope1, bld1, lg)))))"

fun filter_frames ::
  "ObjectProperty list \<Rightarrow> (string \<rightharpoonup> int) \<Rightarrow> CompiledExpression option \<Rightarrow> ColMeta list
     \<Rightarrow> row list list \<Rightarrow> Scope \<times> BlockBuilder \<times> string list
     \<Rightarrow> (Scope \<times> BlockBuilder \<times> string list) outcome" where
  "filter_frames properties sc ce cols [] st = Ok st"
| "filter_frames properties sc ce cols (rr # frames) st =
     (case filter_rows properties sc ce cols rr [0..<length rr] st of
        Panic m \<Rightarrow> Panic m
      | Ok st1 \<Rightarrow> filter_frames properties sc ce cols frames st1)"

text \<open>
  \<open>Process\<close>.  Its result is the error it returns (\<open>None\<close> for nil), the transformation,
  the builder cache and the log as it leaves them.  \<open>t.ces[valueCol.Type]\<close> of a type that
  was never compiled is the zero value, with neither error nor expression.
\<close>

definition Process ::
  "'e execute_pkg \<Rightarrow> filterTransformation \<Rightarrow> BlockBuilderCache \<Rightarrow> string list \<Rightarrow> Block
     \<Rightarrow> (filter_error option \<times> filterTransformation \<times> BlockBuilderCache \<times> string list) outcome" where
  "Process X t cache lg b =
     (case cache_BlockBuilder cache b of
        (builder0, new) \<Rightarrow>
          (let builder = (if new then AddBlockCols b builder0 else builder0);
               cache1 = cache(ToBlockKey b \<mapsto> builder);
               cols = fb_Cols b;
               valueIdx = ValueIdx X cols;
               scopeCols = prepare_scopeCols (ValueColLabel X) (ft_properties t) valueIdx
                             (enumerate 0 cols) (ft_scopeCols t);
               t1 = t\<lparr>ft_scopeCols := scopeCols\<rparr>
           in if valueIdx < 0 \<or> int (length cols) \<le> valueIdx then Panic ''index out of range''
              else
                (let valueCol = cols ! nat valueIdx;
                     exprErr = (case ft_ces t (Type valueCol) of
                                  None \<Rightarrow> \<lparr>Err = None, Expr = None\<rparr>
                                | Some e \<Rightarrow> e)
                 in case Err exprErr of
                      Some err \<Rightarrow> Ok (Some (DoesNotSupportType (Type valueCol) err), t1, cache1, lg)
                    | None \<Rightarrow>
                        (case filter_frames (ft_properties t) scopeCols (Expr exprErr) cols
                                (fb_frames b) (ft_scope t, builder, lg) of
                           Panic m \<Rightarrow> Panic m
                         | Ok (scope1, builder1, lg1) \<Rightarrow>
                             Ok (None, t1\<lparr>ft_scope := scope1\<rparr>,
                                 cache(ToBlockKey b \<mapsto> builder1), lg1)))))"

subsection \<open>An example: the filter \<open>(r) => r._value > 5\<close>\<close>

text \<open>
  The package \<open>execute\<close> for the filter \<open>(r) => r._value > 5\<close>: the comparison compiles for
  the numeric value types and fails to compile for booleans and strings.  Evaluation
  fails at run time on a NaN and on a scope without the value.
\<close>

definition r_value :: ObjectProperty where
  "r_value = \<lparr>Object = ''r'', Property = ''_value''\<rparr>"

definition value_gt_5 :: "string ArrowFunctionExpression" where
  "value_gt_5 = \<lparr>Params = [''r''], Body = ''r._value > 5''\<rparr>"

definition eval_gt_5 :: "Scope \<Rightarrow> bool \<times> string option" where
  "eval_gt_5 scope =
     (case scope r_value of
        Some (CInt v) \<Rightarrow> (5 < sint v, None)
      | Some (CUInt v) \<Rightarrow> (5 < unat v, None)
      | Some (CFloat NaN) \<Rightarrow> (False, Some ''value is not a number'')
      | Some (CFloat v) \<Rightarrow> (float_gt v (Finite 5), None)
      | _ \<Rightarrow> (False, Some ''no value in scope''))"

definition gt_5_ce :: CompiledExpression where
  "gt_5_ce = \<lparr>ce_Type = E_TBool, EvalBool = eval_gt_5\<rparr>"

definition compile_gt_5 ::
  "string ArrowFunctionExpression \<Rightarrow> (ObjectProperty \<rightharpoonup> DataType) \<Rightarrow> string + CompiledExpression" where
  "compile_gt_5 fn types =
     (if types r_value \<in> {Some E_TInt, Some E_TUInt, Some E_TFloat}
      then Inr gt_5_ce
      else Inl ''unsupported binary operator >'')"

definition gt_5_pkg :: "string execute_pkg" where
  "gt_5_pkg =
     \<lparr>ValueDataTypes = [E_TBool, E_TInt, E_TUInt, E_TFloat, E_TString],
      ValueColLabel = ''value'',
      ObjectProperties = (\<lambda>fn. Inr [r_value]),
      CompileExpression = compile_gt_5,
      ValueIdx = (\<lambda>cols. 1)\<rparr>"

text \<open>The transformation that \<open>NewFilterTransformation\<close> builds for this filter.\<close>

definition gt_5_transformation :: filterTransformation where
  "gt_5_transformation =
     \<lparr>ft_properties = [r_value], ft_scope = Map.empty, ft_scopeCols = Map.empty,
      ft_ces = [E_TBool \<mapsto> \<lparr>Err = Some (External ''unsupported binary operator >''), Expr = None\<rparr>,
                E_TInt \<mapsto> \<lparr>Err = None, Expr = Some gt_5_ce\<rparr>,
                E_TUInt \<mapsto> \<lparr>Err = None, Expr = Some gt_5_ce\<rparr>,
                E_TFloat \<mapsto> \<lparr>Err = None, Expr = Some gt_5_ce\<rparr>,
                E_TString \<mapsto> \<lparr>Err = Some (External ''unsupported binary operator >''), Expr = None\<rparr>]\<rparr>"

text \<open>A block with a string-valued column, and a block with a float-valued column.\<close>

definition string_block :: Block where
  "string_block =
     \<lparr>fb_Bounds = \<lparr>b_Start = 0, b_Stop = 10\<rparr>, fb_Tags = Map.empty,
      fb_Cols = [\<lparr>Label = ''time'', Type = E_TTime, IsTag = False, IsCommon = False\<rparr>,
                 \<lparr>Label = ''value'', Type = E_TString, IsTag = False, IsCommon = False\<rparr>],
      fb_frames = [[[CTime 1, CString ''a'']]]\<rparr>"

definition float_block :: Block where
  "float_block =
     \<lparr>fb_Bounds = \<lparr>b_Start = 0, b_Stop = 10\<rparr>, fb_Tags = [''t1'' \<mapsto> ''a''],
      fb_Cols = [\<lparr>Label = ''time'', Type = E_TTime, IsTag = False, IsCommon = False\<rparr>,
                 \<lparr>Label = ''value'', Type = E_TFloat, IsTag = False, IsCommon = False\<rparr>,
                 \<lparr>Label = ''t1'', Type = E_TString, IsTag = True, IsCommon = True\<rparr>],
      fb_frames = [[[CTime 1, CFloat (Finite 1), CString ''a''],
                    [CTime 2, CFloat (Finite 6), CString ''a'']],
                   [[CTime 3, CFloat NaN, CString ''a''],
                    [CTime 4, CFloat (Finite 8), CString ''a'']]]\<rparr>"

subsection \<open>What \<open>Process\<close> does to a block, row by row\<close>

text \<open>
  The notions in which the effect of \<open>Process\<close> on a block is stated: the column map that
  \<open>Process\<close> prepares, the scope a row is evaluated in (every property of the filter
  function is overwritten with the row's value, the rest of the scope is as it was), the
  outcome of the predicate on a row, the rows kept (the predicate is true, without error),
  the log lines of the rows whose evaluation failed, and the builder the block's rows go to.
\<close>

definition block_scopeCols :: "'e execute_pkg \<Rightarrow> filterTransformation \<Rightarrow> Block \<Rightarrow> (string \<rightharpoonup> int)" where
  "block_scopeCols X t b =
     prepare_scopeCols (ValueColLabel X) (ft_properties t) (ValueIdx X (fb_Cols b))
       (enumerate 0 (fb_Cols b)) (ft_scopeCols t)"

definition row_scope :: "ObjectProperty list \<Rightarrow> (string \<rightharpoonup> int) \<Rightarrow> Scope \<Rightarrow> row \<Rightarrow> Scope" where
  "row_scope properties sc scope0 r =
     (\<lambda>op. if op \<in> set properties then Some (r ! nat (scopeCol sc (Property op))) else scope0 op)"

definition eval_row ::
  "'e execute_pkg \<Rightarrow> filterTransformation \<Rightarrow> CompiledExpression \<Rightarrow> Block \<Rightarrow> row \<Rightarrow> bool \<times> string option" where
  "eval_row X t ce b r = EvalBool ce (row_scope (ft_properties t) (block_scopeCols X t b) (ft_scope t) r)"

definition kept_rows ::
  "'e execute_pkg \<Rightarrow> filterTransformation \<Rightarrow> CompiledExpression \<Rightarrow> Block \<Rightarrow> row list" where
  "kept_rows X t ce b = filter (\<lambda>r. eval_row X t ce b r = (True, None)) (concat (fb_frames b))"

definition error_log ::
  "'e execute_pkg \<Rightarrow> filterTransformation \<Rightarrow> CompiledExpression \<Rightarrow> Block \<Rightarrow> string list" where
  "error_log X t ce b =
     concat (map (\<lambda>r. case snd (eval_row X t ce b r) of
                         Some e \<Rightarrow> [''failed to evaluate expression: '' @ e]
                       | None \<Rightarrow> [])
                 (concat (fb_frames b)))"

definition start_builder :: "BlockBuilderCache \<Rightarrow> Block \<Rightarrow> BlockBuilder" where
  "start_builder cache b =
     (case cache (ToBlockKey b) of
        Some bld \<Rightarrow> bld
      | None \<Rightarrow> AddBlockCols b new_builder)"

text \<open>A block is well typed when every cell of every row has the type of its column.\<close>

definition well_typed :: "Block \<Rightarrow> bool" where
  "well_typed b \<longleftrightarrow>
     (\<forall>rr \<in> set (fb_frames b). \<forall>r \<in> set rr.
        list_all2 (\<lambda>v c. cell_type v = Type c) r (fb_Cols b))"

text \<open>The cells that \<open>append_row\<close> adds to the columns of a builder.\<close>

fun add_cells :: "(nat \<times> ColMeta) list \<Rightarrow> row \<Rightarrow> cell list list \<Rightarrow> cell list list" where
  "add_cells [] r d = d"
| "add_cells ((j, c) # cs) r d =
     (if IsCommon c then add_cells cs r d else add_cells cs r (d[j := d ! j @ [r ! j]]))"

section \<open>Evaluator (ifql/eval.go)\<close>

subsection \<open>The syntax tree\<close>

text \<open>
  The nodes of package \<open>ast\<close> that the evaluator looks at.  The operator kinds of \<open>ast\<close>
  carry the prefix \<open>ast_\<close>: package \<open>expression\<close> has operators of the same names.  The
  literals are the nodes that implement \<open>ast.Literal\<close>; \<open>OtherExpression\<close> stands for the
  expressions the evaluator has no case for.  A time is its nanoseconds since the epoch, a
  duration its nanoseconds.
\<close>

datatype OperatorKind =
    ast_EqualOperator | ast_NotEqualOperator | ast_StartsWithOperator
  | ast_MultiplicationOperator | ast_DivisionOperator | ast_AdditionOperator
  | ast_SubtractionOperator | ast_LessThanEqualOperator | ast_LessThanOperator
  | ast_GreaterThanEqualOperator | ast_GreaterThanOperator | ast_InOperator
  | ast_NotEmptyOperator | ast_OtherOperator

datatype LogicalOperatorKind = ast_AndOperator | ast_OrOperator | ast_OtherLogicalOperator

datatype Expression =
    DateTimeLiteral int
  | DurationLiteral int
  | NumberLiteral float64
  | IntegerLiteral int64
  | StringLiteral string
  | BooleanLiteral bool
  | RegexpLiteral string
  | Identifier string
  | CallExpression Expression "Expression list"
  | MemberExpression Expression Expression
  | BinaryExpression OperatorKind Expression Expression
  | LogicalExpression LogicalOperatorKind Expression Expression
  | ArrowFunctionExpression "string list" Expression
  | ArrayExpression "Expression list"
  | ObjectExpression "(string \<times> Expression) list"
  | OtherExpression



subsection \<open>Expression trees (package expression)\<close>

datatype Operator =
    EqualOperator | NotEqualOperator | RegexpMatchOperator | RegexpNotMatchOperator
  | StartsWithOperator | MultiplicationOperator | DivisionOperator | AdditionOperator
  | SubtractionOperator | LessThanEqualOperator | LessThanOperator
  | GreaterThanEqualOperator | GreaterThanOperator | InOperator | NotEmptyOperator
  | AndOperator | OrOperator

datatype Node =
    BinaryNode Operator Node Node
  | StringLiteralNode string
  | BooleanLiteralNode bool
  | FloatLiteralNode float64
  | IntegerLiteralNode int64
  | DurationLiteralNode int
  | TimeLiteralNode int
  | RegexpLiteralNode string
  | ReferenceNode string
  | MemberReferenceNode Node string

record ExprTree =
  expr_Root :: Node
  expr_Params :: "string list"

subsection \<open>Values\<close>

datatype Type =
    TInvalid | TString | TInt | TFloat | TBool | TTime | TDuration | TArray | TMap | TChain
  | TExpression

text \<open>
  A \<open>Value\<close> pairs a \<open>Type\<close> with a Go value of the type that the \<open>Type\<close> names; the
  evaluator builds no other pairs, so a value is one of the following, and its \<open>Type\<close> is
  read off.  \<open>VInvalid\<close> is the zero \<open>Value{}\<close>.  The value of a chain is a \<open>*CallChain\<close>,
  an address in the store of chains.  The elements of an array are values of its type.
\<close>

datatype Value =
    VInvalid
  | VString string
  | VInt int64
  | VFloat float64
  | VBool bool
  | VTime int
  | VDuration int
  | VArray Type "Value list"
  | VMap Type "(string \<times> Value) list"
  | VChain nat
  | VExpression ExprTree

fun Value_Type :: "Value \<Rightarrow> Type" where
  "Value_Type VInvalid = TInvalid"
| "Value_Type (VString _) = TString"
| "Value_Type (VInt _) = TInt"
| "Value_Type (VFloat _) = TFloat"
| "Value_Type (VBool _) = TBool"
| "Value_Type (VTime _) = TTime"
| "Value_Type (VDuration _) = TDuration"
| "Value_Type (VArray _ _) = TArray"
| "Value_Type (VMap _ _) = TMap"
| "Value_Type (VChain _) = TChain"
| "Value_Type (VExpression _) = TExpression"

subsection \<open>Operations, slices and call chains\<close>

type_synonym OperationID = string

record 's Operation =
  op_ID :: OperationID
  op_Spec :: 's

record Edge =
  edge_Parent :: OperationID
  edge_Child :: OperationID

text \<open>
  A Go slice is a window on a backing array: \<open>s[0:0]\<close> keeps the array and its capacity,
  and an \<open>append\<close> within the capacity writes into the array, where every other slice on
  the same array sees it.  The evaluator copies call chains, and with them their slices,
  so arrays are kept in a store: an array has a capacity and cells, a slice is the address
  of its array (\<open>None\<close> for the nil slice) and its length.  All slices of the evaluator
  start at the first cell of their array.
\<close>

record 'a array =
  arr_cap :: nat
  arr_cells :: "nat \<Rightarrow> 'a"

type_synonym slice = "nat option \<times> nat"

definition nil_slice :: slice where
  "nil_slice = (None, 0)"


text \<open>\<open>s[0:0]\<close>\<close>

definition reslice0 :: "slice \<Rightarrow> slice" where
  "reslice0 s = (fst s, 0)"

text \<open>
  \<open>append(s, x)\<close>.  Within the capacity the element is written in place.  Otherwise a new
  array takes the elements of the slice and the new element; Go leaves the capacity of the
  new array to the implementation, so it is the parameter \<open>grow\<close>, a function of the old
  capacity, and at least the new length.  \<open>zero\<close> is the zero value of the element type,
  which fills the cells not written yet.
\<close>

definition append1 :: "(nat \<Rightarrow> nat) \<Rightarrow> 'a \<Rightarrow> 'a array list \<Rightarrow> slice \<Rightarrow> 'a \<Rightarrow> 'a array list \<times> slice" where
  "append1 grow zero arrs s x =
     (case s of
        (None, n) \<Rightarrow>
          (arrs @ [\<lparr>arr_cap = max 1 (grow 0), arr_cells = (\<lambda>i. zero)(0 := x)\<rparr>],
           (Some (length arrs), 1))
      | (Some a, n) \<Rightarrow>
          if n < arr_cap (arrs ! a) then
            (arrs[a := (arrs ! a)\<lparr>arr_cells := (arr_cells (arrs ! a))(n := x)\<rparr>], (Some a, Suc n))
          else
            (arrs @ [\<lparr>arr_cap = max (Suc n) (grow (arr_cap (arrs ! a))),
                      arr_cells = (\<lambda>i. if i < n then arr_cells (arrs ! a) i else zero)(n := x)\<rparr>],
             (Some (length arrs), Suc n)))"

text \<open>
  A \<open>*query.Operation\<close> is nil (\<open>None\<close>) or the address of an operation in the store of
  operations.
\<close>

type_synonym op_ref = "nat option"

definition zero_Edge :: Edge where
  "zero_Edge = \<lparr>edge_Parent = [], edge_Child = []\<rparr>"

record CallChain =
  chain_Parent :: OperationID
  chain_Operations :: slice
  chain_Edges :: slice

definition zero_CallChain :: CallChain where
  "zero_CallChain = \<lparr>chain_Parent = [], chain_Operations = nil_slice, chain_Edges = nil_slice\<rparr>"

subsection \<open>The evaluator and its stores\<close>

text \<open>
  The evaluator has its counter, its scope and the two slices it collects, \<open>operations\<close>
  and \<open>edges\<close>.  No other variable ever holds a slice on the arrays of these two, so each
  is the list of its elements.  Beside them are the stores that Go keeps on its heap: the
  operations and the call chains that have been allocated, an address being an index, and
  the backing arrays of the slices of the call chains.
\<close>

record 's evaluator =
  ev_id :: nat
  ev_scope :: "string \<rightharpoonup> Value"
  ev_operations :: "op_ref list"
  ev_edges :: "Edge list"
  ops :: "'s Operation list"
  chains :: "CallChain list"
  op_arrays :: "op_ref array list"
  edge_arrays :: "Edge array list"

datatype eval_error =
    UndefinedIdentifier string
  | UnsupportedExpression
  | UnsupportedStatement
  | MixedArrayTypes Type Type
  | CannotDefineArray Type
  | UnknownLiteral
  | UnsupportedCallee
  | NotFunctionChain string
  | UnsupportedMemberObject
  | UnknownMethod string
  | UnknownFunction string
  | ErrorCallingMethod string eval_error
  | ErrorCallingFunction string eval_error
  | ArgumentsNotObject
  | DuplicateKeyword string
  | ExtraArguments "string list"
  | ConstructorError string
  | NotBinaryOperation
  | UnknownOperator
  | UnknownLogicalOperator
  | UnknownPrimary
  | UnsupportedProperty

text \<open>
  A call of the evaluator returns, fails with an error, or panics (a failed type
  assertion).  An error ends the evaluation, so no state comes with it.
\<close>

datatype 'a result = Return 'a | Fail eval_error | Crash string

text \<open>
  A registered \<open>CreateOperationSpec\<close> is code outside the evaluator.  It sees the keyword
  arguments through the accessors of \<open>Arguments\<close>, each of which marks the name it is asked
  for as used, and the scope through its \<open>Context\<close>, to which it can add parents.  It is
  a function of the resolved arguments and the evaluator that returns an error message, or
  the spec with the names it has asked for and the parents it has added.
\<close>

type_synonym 's CreateOperationSpec =
  "(string \<times> Value) list \<Rightarrow> 's evaluator \<Rightarrow> string + ('s \<times> string list \<times> OperationID list)"

record 's registry =
  functionsMap :: "string \<rightharpoonup> 's CreateOperationSpec"
  methodMap :: "string \<rightharpoonup> 's CreateOperationSpec"
  growslice :: "nat \<Rightarrow> nat"

subsection \<open>Pure parts: identifiers, literals and expression trees\<close>

text \<open>\<open>fmt.Sprintf("%s%d", name, id)\<close>: the name followed by the decimal digits of the counter.\<close>

definition digit_char :: "nat \<Rightarrow> char" where
  "digit_char d = char_of (48 + d)"

function show_nat :: "nat \<Rightarrow> string" where
  "show_nat n = (if n < 10 then [digit_char n] else show_nat (n div 10) @ [digit_char (n mod 10)])"
  by pat_completeness auto
termination
  by (relation "measure id") auto

definition operation_id :: "string \<Rightarrow> nat \<Rightarrow> OperationID" where
  "operation_id name n = name @ show_nat n"

definition nextID :: "'s evaluator \<Rightarrow> nat \<times> 's evaluator" where
  "nextID ev = (ev_id ev, ev\<lparr>ev_id := ev_id ev + 1\<rparr>)"

text \<open>\<open>doLiteral\<close>: the six literals it knows; a regular expression is no value.\<close>

definition doLiteral :: "Expression \<Rightarrow> eval_error + Value" where
  "doLiteral lit =
     (case lit of
        DateTimeLiteral t \<Rightarrow> Inr (VTime t)
      | DurationLiteral d \<Rightarrow> Inr (VDuration d)
      | NumberLiteral x \<Rightarrow> Inr (VFloat x)
      | IntegerLiteral i \<Rightarrow> Inr (VInt i)
      | StringLiteral s \<Rightarrow> Inr (VString s)
      | BooleanLiteral b \<Rightarrow> Inr (VBool b)
      | _ \<Rightarrow> Inl UnknownLiteral)"

definition is_Literal :: "Expression \<Rightarrow> bool" where
  "is_Literal e =
     (case e of
        DateTimeLiteral _ \<Rightarrow> True | DurationLiteral _ \<Rightarrow> True | NumberLiteral _ \<Rightarrow> True
      | IntegerLiteral _ \<Rightarrow> True | StringLiteral _ \<Rightarrow> True | BooleanLiteral _ \<Rightarrow> True
      | RegexpLiteral _ \<Rightarrow> True | _ \<Rightarrow> False)"

definition expressionOperator :: "OperatorKind \<Rightarrow> bool \<Rightarrow> eval_error + Operator" where
  "expressionOperator op isRegexp =
     (case op of
        ast_EqualOperator \<Rightarrow> if isRegexp then Inr RegexpMatchOperator else Inr EqualOperator
      | ast_NotEqualOperator \<Rightarrow> if isRegexp then Inr RegexpNotMatchOperator else Inr NotEqualOperator
      | ast_StartsWithOperator \<Rightarrow> Inr StartsWithOperator
      | ast_MultiplicationOperator \<Rightarrow> Inr MultiplicationOperator
      | ast_DivisionOperator \<Rightarrow> Inr DivisionOperator
      | ast_AdditionOperator \<Rightarrow> Inr AdditionOperator
      | ast_SubtractionOperator \<Rightarrow> Inr SubtractionOperator
      | ast_LessThanEqualOperator \<Rightarrow> Inr LessThanEqualOperator
      | ast_LessThanOperator \<Rightarrow> Inr LessThanOperator
      | ast_GreaterThanEqualOperator \<Rightarrow> Inr GreaterThanEqualOperator
      | ast_GreaterThanOperator \<Rightarrow> Inr GreaterThanOperator
      | ast_InOperator \<Rightarrow> Inr InOperator
      | ast_NotEmptyOperator \<Rightarrow> Inr NotEmptyOperator
      | ast_OtherOperator \<Rightarrow> Inl UnknownOperator)"

definition logicalOperator :: "LogicalOperatorKind \<Rightarrow> eval_error + Operator" where
  "logicalOperator op =
     (case op of
        ast_AndOperator \<Rightarrow> Inr AndOperator
      | ast_OrOperator \<Rightarrow> Inr OrOperator
      | ast_OtherLogicalOperator \<Rightarrow> Inl UnknownLogicalOperator)"

definition is_RegexpLiteralNode :: "Node \<Rightarrow> bool" where
  "is_RegexpLiteralNode n = (case n of RegexpLiteralNode _ \<Rightarrow> True | _ \<Rightarrow> False)"

definition propertyName :: "Expression \<Rightarrow> eval_error + string" where
  "propertyName p =
     (case p of
        Identifier name \<Rightarrow> Inr name
      | StringLiteral v \<Rightarrow> Inr v
      | _ \<Rightarrow> Inl UnsupportedProperty)"

text \<open>
  \<open>primaryNode\<close> and \<open>binaryExpression\<close> call each other; \<open>binaryExpression op l r\<close> is the
  method applied to the node \<open>BinaryExpression op l r\<close>.
\<close>

function primaryNode :: "Expression \<Rightarrow> eval_error + Node"
  and binaryExpression :: "OperatorKind \<Rightarrow> Expression \<Rightarrow> Expression \<Rightarrow> eval_error + Node" where
  "primaryNode e =
     (case e of
        BinaryExpression op l r \<Rightarrow> binaryExpression op l r
      | StringLiteral v \<Rightarrow> Inr (StringLiteralNode v)
      | BooleanLiteral v \<Rightarrow> Inr (BooleanLiteralNode v)
      | NumberLiteral v \<Rightarrow> Inr (FloatLiteralNode v)
      | IntegerLiteral v \<Rightarrow> Inr (IntegerLiteralNode v)
      | DurationLiteral v \<Rightarrow> Inr (DurationLiteralNode v)
      | DateTimeLiteral v \<Rightarrow> Inr (TimeLiteralNode v)
      | RegexpLiteral v \<Rightarrow> Inr (RegexpLiteralNode v)
      | Identifier name \<Rightarrow> Inr (ReferenceNode name)
      | MemberExpression obj prop \<Rightarrow>
          (case primaryNode obj of
             Inl err \<Rightarrow> Inl err
           | Inr o' \<Rightarrow>
               (case propertyName prop of
                  Inl err \<Rightarrow> Inl err
                | Inr p \<Rightarrow> Inr (MemberReferenceNode o' p)))
      | _ \<Rightarrow> Inl UnknownPrimary)"
| "binaryExpression op l r =
     (case primaryNode l of
        Inl err \<Rightarrow> Inl err
      | Inr lhs \<Rightarrow>
          (case primaryNode r of
             Inl err \<Rightarrow> Inl err
           | Inr rhs \<Rightarrow>
               (case expressionOperator op (is_RegexpLiteralNode lhs \<or> is_RegexpLiteralNode rhs) of
                  Inl err \<Rightarrow> Inl err
                | Inr op' \<Rightarrow> Inr (BinaryNode op' lhs rhs))))"
  by pat_completeness auto
termination
  by (relation "measure (case_sum (\<lambda>e. 2 * size e) (\<lambda>(op, l, r). 2 * (size l + size r) + 1))") auto

function binaryOperation :: "Expression \<Rightarrow> eval_error + Node"
  and logicalExpression :: "LogicalOperatorKind \<Rightarrow> Expression \<Rightarrow> Expression \<Rightarrow> eval_error + Node" where
  "binaryOperation e =
     (case e of
        BinaryExpression op l r \<Rightarrow> binaryExpression op l r
      | LogicalExpression op l r \<Rightarrow> logicalExpression op l r
      | _ \<Rightarrow> Inl NotBinaryOperation)"
| "logicalExpression op l r =
     (case binaryOperation l of
        Inl err \<Rightarrow> Inl err
      | Inr lhs \<Rightarrow>
          (case binaryOperation r of
             Inl err \<Rightarrow> Inl err
           | Inr rhs \<Rightarrow>
               (case logicalOperator op of
                  Inl err \<Rightarrow> Inl err
                | Inr op' \<Rightarrow> Inr (BinaryNode op' lhs rhs))))"
  by pat_completeness auto
termination
  by (relation "measure (case_sum (\<lambda>e. 2 * size e) (\<lambda>(op, l, r). 2 * (size l + size r) + 1))") auto


subsection \<open>Evaluation of expressions\<close>


text \<open>\<open>listUnused\<close>.  Go ranges over the map of arguments in no fixed order; here the
  order is that of the argument list.\<close>

definition listUnused :: "(string \<times> Value) list \<Rightarrow> string list \<Rightarrow> string list" where
  "listUnused params used = filter (\<lambda>k. k \<notin> set used) (map fst params)"

text \<open>\<open>AdditionalParent\<close> adds an id unless the context has it already.\<close>

definition AdditionalParent :: "OperationID list \<Rightarrow> OperationID \<Rightarrow> OperationID list" where
  "AdditionalParent parents i = (if i \<in> set parents then parents else parents @ [i])"

text \<open>
  The loops of \<open>callFunction\<close> that add the edges from the additional parents to the new
  operation; in a method call the tail of the chain has its edge already and is skipped.
\<close>

fun add_parent_edges ::
  "(nat \<Rightarrow> nat) \<Rightarrow> OperationID option \<Rightarrow> OperationID \<Rightarrow> OperationID list \<Rightarrow> Edge array list \<Rightarrow> slice
     \<Rightarrow> Edge array list \<times> slice" where
  "add_parent_edges grow skip child [] arrs es = (arrs, es)"
| "add_parent_edges grow skip child (p # ps) arrs es =
     (if Some p = skip then add_parent_edges grow skip child ps arrs es
      else
        (case append1 grow zero_Edge arrs es \<lparr>edge_Parent = p, edge_Child = child\<rparr> of
           (arrs1, es1) \<Rightarrow> add_parent_edges grow skip child ps arrs1 es1))"

text \<open>\<open>op.ID\<close> through a \<open>*query.Operation\<close>; a nil pointer panics.\<close>

definition op_ID_of :: "'s evaluator \<Rightarrow> op_ref \<Rightarrow> OperationID option" where
  "op_ID_of ev r = (case r of None \<Rightarrow> None | Some a \<Rightarrow> Some (op_ID (ops ev ! a)))"

text \<open>
  The functions of the evaluator that call each other.  \<open>callFunction\<close> and
  \<open>memberFunction\<close> take the call and the member expression as Go types them, so their
  case for any other node cannot be reached.  The argument \<open>chain\<close> is a \<open>*CallChain\<close> that
  may be nil.  A new operation enters the store of operations when \<open>createOp\<close> returns it:
  until then nothing but \<open>createOp\<close> holds its pointer.
\<close>

function (sequential) doExpression :: "'s registry \<Rightarrow> Expression \<Rightarrow> 's evaluator \<Rightarrow> (Value \<times> 's evaluator) result"
  and doArray :: "'s registry \<Rightarrow> Expression \<Rightarrow> 's evaluator \<Rightarrow> (Value \<times> 's evaluator) result"
  and doElements :: "'s registry \<Rightarrow> Expression list \<Rightarrow> Type \<Rightarrow> Value list \<Rightarrow> 's evaluator
        \<Rightarrow> (Type \<times> Value list \<times> 's evaluator) result"
  and callFunction :: "'s registry \<Rightarrow> Expression \<Rightarrow> nat option \<Rightarrow> 's evaluator \<Rightarrow> (nat \<times> 's evaluator) result"
  and memberFunction :: "'s registry \<Rightarrow> Expression \<Rightarrow> nat option \<Rightarrow> 's evaluator
        \<Rightarrow> (nat \<times> string \<times> 's evaluator) result"
  and method_op :: "'s registry \<Rightarrow> string \<Rightarrow> Expression list \<Rightarrow> 's evaluator
        \<Rightarrow> (op_ref \<times> OperationID list \<times> 's evaluator) result"
  and function_op :: "'s registry \<Rightarrow> string \<Rightarrow> Expression list \<Rightarrow> 's evaluator
        \<Rightarrow> (op_ref \<times> OperationID list \<times> 's evaluator) result"
  and createOp :: "'s registry \<Rightarrow> string \<Rightarrow> 's CreateOperationSpec \<Rightarrow> Expression list \<Rightarrow> 's evaluator
        \<Rightarrow> (op_ref \<times> OperationID list \<times> 's evaluator) result"
  and resolveParameters :: "'s registry \<Rightarrow> (string \<times> Expression) list \<Rightarrow> (string \<times> Value) list \<Rightarrow> 's evaluator
        \<Rightarrow> ((string \<times> Value) list \<times> 's evaluator) result"
where
  "doExpression R e ev =
     (if is_Literal e then
        (case doLiteral e of Inl err \<Rightarrow> Fail err | Inr v \<Rightarrow> Return (v, ev))
      else
        (case e of
           Identifier name \<Rightarrow>
             (case ev_scope ev name of
                None \<Rightarrow> Fail (UndefinedIdentifier name)
              | Some v \<Rightarrow> Return (v, ev))
         | CallExpression callee args \<Rightarrow>
             (case callFunction R e None ev of
                Return (chain, ev1) \<Rightarrow> Return (VChain chain, ev1)
              | Fail err \<Rightarrow> Fail err
              | Crash m \<Rightarrow> Crash m)
         | BinaryExpression op l r \<Rightarrow>
             (case binaryExpression op l r of
                Inl err \<Rightarrow> Fail err
              | Inr rt \<Rightarrow> Return (VExpression \<lparr>expr_Root = rt, expr_Params = []\<rparr>, ev))
         | LogicalExpression op l r \<Rightarrow>
             (case logicalExpression op l r of
                Inl err \<Rightarrow> Fail err
              | Inr rt \<Rightarrow> Return (VExpression \<lparr>expr_Root = rt, expr_Params = []\<rparr>, ev))
         | ArrowFunctionExpression params body \<Rightarrow>
             (case doExpression R body ev of
                Return (v, ev1) \<Rightarrow>
                  (case v of
                     VExpression ex \<Rightarrow> Return (VExpression (ex\<lparr>expr_Params := params\<rparr>), ev1)
                   | _ \<Rightarrow> Crash ''interface conversion: value is not an expression'')
              | Fail err \<Rightarrow> Fail err
              | Crash m \<Rightarrow> Crash m)
         | ArrayExpression elements \<Rightarrow> doArray R e ev
         | _ \<Rightarrow> Fail UnsupportedExpression))"
| "doArray R a ev =
     (case a of
        ArrayExpression elements \<Rightarrow>
          (case doElements R elements TInvalid [] ev of
             Return (array_Type, vs, ev1) \<Rightarrow>
               if array_Type \<in> {TString, TInt, TFloat, TBool, TTime, TDuration, TArray, TMap,
                                 TChain, TExpression}
               then Return (VArray array_Type vs, ev1)
               else Fail (CannotDefineArray array_Type)
           | Fail err \<Rightarrow> Fail err
           | Crash m \<Rightarrow> Crash m)
      | _ \<Rightarrow> Crash ''not an array expression'')"
| "doElements R [] array_Type vs ev = Return (array_Type, vs, ev)"
| "doElements R (el # els) array_Type vs ev =
     (case doExpression R el ev of
        Return (v, ev1) \<Rightarrow>
          (let array_Type1 = (if array_Type = TInvalid then Value_Type v else array_Type) in
           if array_Type1 \<noteq> Value_Type v then Fail (MixedArrayTypes array_Type1 (Value_Type v))
           else doElements R els array_Type1 (vs @ [v]) ev1)
      | Fail err \<Rightarrow> Fail err
      | Crash m \<Rightarrow> Crash m)"
| "callFunction R call chain ev =
     (case call of
        CallExpression callee args \<Rightarrow>
          (case callee of
             Identifier name \<Rightarrow>
               (case function_op R name args ev of
                  Return (op, parents, ev1) \<Rightarrow>
                    (case op_ID_of ev1 op of
                       None \<Rightarrow> Crash ''nil pointer dereference''
                     | Some i \<Rightarrow>
                         (case add_parent_edges (growslice R) None i parents (edge_arrays ev1) nil_slice of
                            (earrs, es) \<Rightarrow>
                              Return
                                (length (chains ev1),
                                 ev1\<lparr>chains := chains ev1 @
                                        [\<lparr>chain_Parent = i,
                                          chain_Operations = (Some (length (op_arrays ev1)), 1),
                                          chain_Edges = es\<rparr>],
                                     op_arrays := op_arrays ev1 @
                                        [\<lparr>arr_cap = 1, arr_cells = (\<lambda>i. None)(0 := op)\<rparr>],
                                     edge_arrays := earrs\<rparr>)))
                | Fail err \<Rightarrow> Fail err
                | Crash m \<Rightarrow> Crash m)
           | MemberExpression obj prop \<Rightarrow>
               (case memberFunction R callee chain ev of
                  Return (c, name, ev1) \<Rightarrow>
                    (case method_op R name args ev1 of
                       Return (op, parents, ev2) \<Rightarrow>
                         (case op_ID_of ev2 op of
                            None \<Rightarrow> Crash ''nil pointer dereference''
                          | Some i \<Rightarrow>
                              (let ch = chains ev2 ! c in
                               case append1 (growslice R) None (op_arrays ev2) (chain_Operations ch) op of
                                 (oarrs, os) \<Rightarrow>
                                   (case append1 (growslice R) zero_Edge (edge_arrays ev2) (chain_Edges ch)
                                           \<lparr>edge_Parent = chain_Parent ch, edge_Child = i\<rparr> of
                                      (earrs1, es1) \<Rightarrow>
                                        (case add_parent_edges (growslice R) (Some (chain_Parent ch)) i
                                                parents earrs1 es1 of
                                           (earrs, es) \<Rightarrow>
                                             Return
                                               (c,
                                                ev2\<lparr>chains := (chains ev2)
                                                       [c := \<lparr>chain_Parent = i, chain_Operations = os,
                                                               chain_Edges = es\<rparr>],
                                                    op_arrays := oarrs,
                                                    edge_arrays := earrs\<rparr>)))))
                     | Fail err \<Rightarrow> Fail err
                     | Crash m \<Rightarrow> Crash m)
                | Fail err \<Rightarrow> Fail err
                | Crash m \<Rightarrow> Crash m)
           | _ \<Rightarrow> Fail UnsupportedCallee)
      | _ \<Rightarrow> Crash ''not a call expression'')"
| "memberFunction R member chain ev =
     (case member of
        MemberExpression obj prop \<Rightarrow>
          (case (case obj of
                   CallExpression callee args \<Rightarrow>
                     (case callFunction R obj chain ev of
                        Return (c, ev1) \<Rightarrow> Return (c, ev1)
                      | Fail err \<Rightarrow> Fail err
                      | Crash m \<Rightarrow> Crash m)
                 | Identifier name \<Rightarrow>
                     (case ev_scope ev name of
                        None \<Rightarrow> Fail (UndefinedIdentifier name)
                      | Some v \<Rightarrow>
                          (case v of
                             VChain src \<Rightarrow>
                               (case chain of
                                  None \<Rightarrow>
                                    Return (length (chains ev), ev\<lparr>chains := chains ev @ [chains ev ! src]\<rparr>)
                                | Some c \<Rightarrow>
                                    Return (c, ev\<lparr>chains := (chains ev)[c := chains ev ! src]\<rparr>))
                           | _ \<Rightarrow> Fail (NotFunctionChain name)))
                 | _ \<Rightarrow> Fail UnsupportedMemberObject) of
             Return (c, ev1) \<Rightarrow>
               (case prop of
                  Identifier name \<Rightarrow> Return (c, name, ev1)
                | _ \<Rightarrow> Crash ''interface conversion: property is not an identifier'')
           | Fail err \<Rightarrow> Fail err
           | Crash m \<Rightarrow> Crash m)
      | _ \<Rightarrow> Crash ''not a member expression'')"
| "method_op R name args ev =
     (case methodMap R name of
        None \<Rightarrow> Fail (UnknownMethod name)
      | Some createOpSpec \<Rightarrow>
          (case createOp R name createOpSpec args ev of
             Return r \<Rightarrow> Return r
           | Fail err \<Rightarrow> Fail (ErrorCallingMethod name err)
           | Crash m \<Rightarrow> Crash m))"
| "function_op R name args ev =
     (case functionsMap R name of
        None \<Rightarrow> Fail (UnknownFunction name)
      | Some createOpSpec \<Rightarrow>
          (case createOp R name createOpSpec args ev of
             Return r \<Rightarrow> Return r
           | Fail err \<Rightarrow> Fail (ErrorCallingFunction name err)
           | Crash m \<Rightarrow> Crash m))"
| "createOp R name createOpSpec args ev =
     (case nextID ev of
        (n, ev1) \<Rightarrow>
          (case (case args of
                   [a] \<Rightarrow>
                     (case a of
                        ObjectExpression params \<Rightarrow> resolveParameters R params [] ev1
                      | _ \<Rightarrow> Fail ArgumentsNotObject)
                 | _ \<Rightarrow> Return ([], ev1)) of
             Return (paramMap, ev2) \<Rightarrow>
               (case createOpSpec paramMap ev2 of
                  Inl msg \<Rightarrow> Fail (ConstructorError msg)
                | Inr (spec, used, added) \<Rightarrow>
                    if length (listUnused paramMap used) > 0
                    then Fail (ExtraArguments (listUnused paramMap used))
                    else
                      Return
                        (Some (length (ops ev2)),
                         foldl AdditionalParent [] added,
                         ev2\<lparr>ops := ops ev2 @ [\<lparr>op_ID = operation_id name n, op_Spec = spec\<rparr>]\<rparr>))
           | Fail err \<Rightarrow> Fail err
           | Crash m \<Rightarrow> Crash m))"
| "resolveParameters R [] paramsMap ev = Return (paramsMap, ev)"
| "resolveParameters R (p # ps) paramsMap ev =
     (case doExpression R (snd p) ev of
        Return (v, ev1) \<Rightarrow>
          if fst p \<in> fst ` set paramsMap then Fail (DuplicateKeyword (fst p))
          else resolveParameters R ps (paramsMap @ [(fst p, v)]) ev1
      | Fail err \<Rightarrow> Fail err
      | Crash m \<Rightarrow> Crash m)"
  by pat_completeness auto
termination
  by (relation "measure
    (case_sum
      (case_sum
        (case_sum (\<lambda>(R, e, ev). 4 * size e + 3) (\<lambda>(R, a, ev). 4 * size a + 2))
        (case_sum (\<lambda>(R, els, t, vs, ev). 4 * size_list size els)
                  (\<lambda>(R, call, ch, ev). 4 * size call + 2)))
      (case_sum
        (case_sum (\<lambda>(R, m, ch, ev). 4 * size m) (\<lambda>(R, n, args, ev). 4 * size_list size args + 1))
        (case_sum (\<lambda>(R, n, args, ev). 4 * size_list size args + 1)
          (case_sum (\<lambda>(R, n, c, args, ev). 4 * size_list size args)
                    (\<lambda>(R, ps, pm, ev). 4 * size_list (\<lambda>p. Suc (size (snd p))) ps)))))")
     (auto simp: size_prod_simp)

declare doExpression.simps [simp del] doArray.simps [simp del] doElements.simps [simp del]
  callFunction.simps [simp del] memberFunction.simps [simp del] method_op.simps [simp del]
  function_op.simps [simp del] createOp.simps [simp del] resolveParameters.simps [simp del]

subsection \<open>Statements and programs\<close>



text \<open>
  \<open>Evaluate\<close> starts from a new evaluator and returns the query spec: the operations,
  as pointers into the store of operations that comes with them, and the edges.
\<close>

record 's QuerySpec =
  Operations :: "op_ref list"
  Edges :: "Edge list"
  operation_store :: "'s Operation list"

definition new_evaluator :: "'s evaluator" where
  "new_evaluator =
     \<lparr>ev_id = 0, ev_scope = Map.empty, ev_operations = [], ev_edges = [], ops = [], chains = [],
      op_arrays = [], edge_arrays = []\<rparr>"

definition spec :: "'s evaluator \<Rightarrow> 's QuerySpec" where
  "spec ev = \<lparr>Operations = ev_operations ev, Edges = ev_edges ev, operation_store = ops ev\<rparr>"


subsection \<open>Invariants of the evaluator\<close>


definition fresh_slice :: "nat \<Rightarrow> op_ref array list \<Rightarrow> slice \<Rightarrow> bool" where
  "fresh_slice o_min arrs s =
     (case s of
        (None, n) \<Rightarrow> True
      | (Some a, n) \<Rightarrow> a < length arrs \<and> (\<forall>i<n. \<exists>q. arr_cells (arrs ! a) i = Some q \<and> o_min \<le> q))"










subsection \<open>Keyword arguments and an example registry\<close>

text \<open>
  \<open>arguments\<close>: the resolved keyword arguments and the names that have been asked for.
  \<open>get\<close> marks the name as used before it looks it up.
\<close>

record arguments =
  arg_params :: "(string \<times> Value) list"
  arg_used :: "string list"

definition newArguments :: "(string \<times> Value) list \<Rightarrow> arguments" where
  "newArguments ps = \<lparr>arg_params = ps, arg_used = []\<rparr>"

definition arguments_get ::
  "string \<Rightarrow> Type \<Rightarrow> bool \<Rightarrow> arguments \<Rightarrow> (string + Value \<times> bool) \<times> arguments" where
  "arguments_get name typ required a =
     (let a1 = a\<lparr>arg_used := arg_used a @ [name]\<rparr> in
      case map_of (arg_params a) name of
        None \<Rightarrow>
          if required then (Inl (''missing required keyword argument '' @ name), a1)
          else (Inr (VInvalid, False), a1)
      | Some v \<Rightarrow>
          if Value_Type v \<noteq> typ then (Inl (''keyword argument has the wrong type: '' @ name), a1)
          else (Inr (v, True), a1))"

definition GetBool :: "string \<Rightarrow> arguments \<Rightarrow> (string + bool \<times> bool) \<times> arguments" where
  "GetBool name a =
     (case arguments_get name TBool False a of
        (Inl err, a1) \<Rightarrow> (Inl err, a1)
      | (Inr (v, ok), a1) \<Rightarrow>
          if \<not> ok then (Inr (False, ok), a1)
          else (case v of VBool b \<Rightarrow> (Inr (b, ok), a1) | _ \<Rightarrow> (Inl ''interface conversion'', a1)))"

definition GetRequiredString :: "string \<Rightarrow> arguments \<Rightarrow> (string + string) \<times> arguments" where
  "GetRequiredString name a =
     (case arguments_get name TString True a of
        (Inl err, a1) \<Rightarrow> (Inl err, a1)
      | (Inr (v, ok), a1) \<Rightarrow>
          (case v of VString s \<Rightarrow> (Inr s, a1) | _ \<Rightarrow> (Inl ''interface conversion'', a1)))"

text \<open>
  The specs of two operations.  \<open>createMaxOpSpec\<close> is the constructor of \<open>max\<close> (max.go): it
  asks for the optional boolean \<open>useRowTime\<close> and adds no parent.  \<open>createFromOpSpec\<close> is a
  constructor of the same shape for a function \<open>from\<close> with the required string \<open>db\<close>, as
  the tests of the package call it.
\<close>

datatype OperationSpec = MaxOpSpec bool | FromOpSpec string

definition createMaxOpSpec :: "OperationSpec CreateOperationSpec" where
  "createMaxOpSpec ps ctx =
     (case GetBool ''useRowTime'' (newArguments ps) of
        (Inl err, a) \<Rightarrow> Inl err
      | (Inr (useRowTime, ok), a) \<Rightarrow>
          Inr (MaxOpSpec (if ok then useRowTime else False), arg_used a, []))"

definition createFromOpSpec :: "OperationSpec CreateOperationSpec" where
  "createFromOpSpec ps ctx =
     (case GetRequiredString ''db'' (newArguments ps) of
        (Inl err, a) \<Rightarrow> Inl err
      | (Inr db, a) \<Rightarrow> Inr (FromOpSpec db, arg_used a, []))"

definition example_registry :: "OperationSpec registry" where
  "example_registry =
     \<lparr>functionsMap = [''from'' \<mapsto> createFromOpSpec],
      methodMap = [''max'' \<mapsto> createMaxOpSpec],
      growslice = (\<lambda>c. 2 * c)\<rparr>"



definition from_mydb_foo :: "(string \<times> Expression) list" where
  "from_mydb_foo = [(''db'', StringLiteral ''mydb''), (''foo'', IntegerLiteral 1)]"

section \<open>Properties of the \<open>max\<close> selector\<close>











text \<open>The three comparisons.\<close>

lemma float_gt_NaN [simp]: "\<not> float_gt NaN b" "\<not> float_gt a NaN"
  by (cases a; simp)+

















section \<open>Properties of the filter push-down\<close>

lemma PushDown_first:
  assumes "ps rootp = Some p" "proc_Spec p = FromSpec sp" "\<not> FilterSet sp"
  shows "PushDown s rootp dup ps
     = Ok (ps(rootp \<mapsto> p\<lparr>proc_Spec := FromSpec (sp\<lparr>FilterSet := True, Filter := Some (F s)\<rparr>)\<rparr>))"
  using assms by (simp add: PushDown_def)

lemma PushDown_second:
  assumes "ps rootp = Some p" "proc_Spec p = FromSpec sp" "FilterSet sp"
    and "dup ps = (dupl, ps')" "ps' dupl = Some p'" "proc_Spec p' = FromSpec sp'"
  shows "PushDown s rootp dup ps
     = Ok (ps'(dupl \<mapsto> p'\<lparr>proc_Spec := FromSpec (sp'\<lparr>FilterSet := False, Filter := None\<rparr>)\<rparr>))"
  using assms by (simp add: PushDown_def)

text \<open>
  Claim C1 at the plan of \<open>TestFilter_PushDown_Branch\<close>.  The second push-down does call
  \<open>dup\<close> and leaves the original \<open>from\<close> with filter A, as the claim says; but the duplicate
  ends with \<open>FilterSet = false\<close> and no filter, where the claim and the test want it to end
  with filter B set.
\<close>

theorem PushDown_branch_loses_second_filter:
  "\<exists>ps. push_both = Ok ps \<and>
     ps ''from'' = Some (wanted_from ''from'' ''_measurement != A'') \<and>
     ps ''from_dup'' = Some ((wanted_from ''from_dup'' ''_measurement != B'')
        \<lparr>proc_Spec := FromSpec \<lparr>Database = ''mydb'', BoundsSet = True,
            Bounds = \<lparr>Start = zero_time, Stop = Now\<rparr>, FilterSet = False, Filter = None\<rparr>\<rparr>) \<and>
     ps ''from_dup'' \<noteq> Some (wanted_from ''from_dup'' ''_measurement != B'')"
  by (simp add: push_both_def PushDown_def dup_procedure_def ProcedureIDForDuplicate_def Let_def
      branch_plan_def branch_from_def filterA_def filterB_def wanted_from_def)

section \<open>Properties of the storage reader\<close>


lemma more_frames_swallows_error:
  "more_frames \<lparr>stream = \<lparr>pending = [], final = err\<rparr>, rep_Frames = []\<rparr>
     = (False, \<lparr>stream = \<lparr>pending = [], final = err\<rparr>, rep_Frames = []\<rparr>)"
  by (simp add: more_frames_def RecvMsg_def)

lemma Do_one_series:
  "Do (TimeCol, ValueCol) read_float_values (one_series_iterator err)
     = Some (Ok ([one_series_block], \<lparr>stream = \<lparr>pending = [], final = err\<rparr>, rep_Frames = []\<rparr>))"
  by (simp add: Do_def Do_loop.simps one_series_iterator_def one_series_def more_frames_def
      RecvMsg_def peek_def next_frame_def read_float_values_def iter_Do_def Values_def Col_def
      col_get_def TimeCol_def ValueCol_def drain.simps advance_def buf_has_type_def
      series_tags_def one_series_block_def Let_def)

text \<open>
  Claim C3 at a stream that delivers one series and then fails with a transport error.
  \<open>Do\<close> hands the block to its consumer and returns, exactly as it does when the stream
  ends with \<open>io.EOF\<close>: \<open>more\<close> answers \<open>false\<close> to both, and the error is reported to
  nobody, where the claim has it reported to the consumer of the blocks.
\<close>

theorem transport_error_is_swallowed:
  "Do (TimeCol, ValueCol) read_float_values (one_series_iterator (TransportError ''connection reset''))
     = Some (Ok ([one_series_block],
          \<lparr>stream = \<lparr>pending = [], final = TransportError ''connection reset''\<rparr>, rep_Frames = []\<rparr>)) \<and>
   Do (TimeCol, ValueCol) read_float_values (one_series_iterator EOF)
     = Some (Ok ([one_series_block], \<lparr>stream = \<lparr>pending = [], final = EOF\<rparr>, rep_Frames = []\<rparr>))"
  by (simp add: Do_one_series)

lemma peek_known:
  "rep_Frames s = frame # rest \<Longrightarrow> (\<exists>p. peek s = Ok p) = known_kind frame"
  by (cases frame) (simp_all add: peek_def)

lemma advance_known:
  "rep_Frames s = frame # rest \<Longrightarrow> parallel_arrays frame \<Longrightarrow>
     (\<exists>r. advance b s = Ok r) = known_kind frame"
  by (cases frame) (auto simp: advance_def more_frames_def peek_def next_frame_def Let_def)

text \<open>
  Claim C4, as amended.  With a frame at the head of the read state whose timestamps and
  values are parallel arrays, \<open>peek\<close> and \<open>advance\<close> return without a panic exactly
  when the frame is a series, an integerPoints or a floatPoints frame.
\<close>

theorem known_frames_do_not_panic:
  "rep_Frames s = frame # rest \<Longrightarrow> parallel_arrays frame \<Longrightarrow>
     ((\<exists>p. peek s = Ok p) \<longleftrightarrow> known_kind frame) \<and>
     ((\<exists>r. advance b s = Ok r) \<longleftrightarrow> known_kind frame)"
  using peek_known [of s frame rest] advance_known [of s frame rest b] by blast

text \<open>
  The amended claim at a floatPoints frame of two points.
\<close>

theorem known_frames_do_not_panic_witness:
  "rep_Frames \<lparr>stream = one_series EOF, rep_Frames = [FloatPoints [1, 2] [Finite 1, Finite 2]]\<rparr>
     = [FloatPoints [1, 2] [Finite 1, Finite 2]] \<and>
   parallel_arrays (FloatPoints [1, 2] [Finite 1, Finite 2]) \<and>
   known_kind (FloatPoints [1, 2] [Finite 1, Finite 2]) \<and>
   (\<exists>p. peek \<lparr>stream = one_series EOF, rep_Frames = [FloatPoints [1, 2] [Finite 1, Finite 2]]\<rparr> = Ok p) \<and>
   (\<exists>r. advance (Col one_series_block 1)
          \<lparr>stream = one_series EOF, rep_Frames = [FloatPoints [1, 2] [Finite 1, Finite 2]]\<rparr> = Ok r)"
  using known_frames_do_not_panic
    [of "\<lparr>stream = one_series EOF, rep_Frames = [FloatPoints [1, 2] [Finite 1, Finite 2]]\<rparr>"
        "FloatPoints [1, 2] [Finite 1, Finite 2]" "[]" "Col one_series_block 1"]
  by simp

text \<open>
  Claim C4 as stated fails: a stringPoints, a booleanPoints and an unsignedPoints frame
  reach the panic of \<open>peek\<close>, in \<open>advance\<close> as well; and \<open>advance\<close> panics on an
  integerPoints frame with fewer values than timestamps.
\<close>

theorem other_frames_panic_counterexample:
  "peek \<lparr>stream = one_series EOF, rep_Frames = [StringPoints [1] [''a'']]\<rparr>
     = Panic ''read response frame should have one of series, integerPoints, or floatPoints'' \<and>
   advance (Col one_series_block 1) \<lparr>stream = one_series EOF, rep_Frames = [StringPoints [1] [''a'']]\<rparr>
     = Panic ''read response frame should have one of series, integerPoints, or floatPoints'' \<and>
   peek \<lparr>stream = one_series EOF, rep_Frames = [BooleanPoints [1] [True]]\<rparr>
     = Panic ''read response frame should have one of series, integerPoints, or floatPoints'' \<and>
   peek \<lparr>stream = one_series EOF, rep_Frames = [UnsignedPoints [1] [7]]\<rparr>
     = Panic ''read response frame should have one of series, integerPoints, or floatPoints'' \<and>
   advance (Col one_series_block 1) \<lparr>stream = one_series EOF, rep_Frames = [IntegerPoints [1, 2] [7]]\<rparr>
     = Panic ''index out of range''"
  by (simp add: peek_def advance_def more_frames_def next_frame_def Let_def)

text \<open>
  Claim C6, as amended.  When the dial and the opening of the stream succeed, \<open>Read\<close> has
  sent a request whose \<open>Database\<close>, \<open>Predicate\<close> and \<open>Descending\<close> are those of the read
  spec and whose timestamp range is \<open>(start, stop)\<close>, with \<open>Limit\<close> left at zero, and it
  returns a block iterator with the bounds \<open>(start, stop)\<close> over the stream.
\<close>

theorem Read_request:
  assumes "dial = Inr conn"
    and "rpc conn \<lparr>req_Database = rs_Database readSpec, req_Predicate = rs_Predicate readSpec,
            req_Limit = 0, req_Descending = rs_Descending readSpec,
            req_Start = start, req_End = stop\<rparr> = Inr st"
  shows "Read dial rpc sr readSpec start stop
     = (Some \<lparr>req_Database = rs_Database readSpec, req_Predicate = rs_Predicate readSpec,
              req_Limit = 0, req_Descending = rs_Descending readSpec,
              req_Start = start, req_End = stop\<rparr>,
        Inr \<lparr>bi_bounds = \<lparr>b_Start = start, b_Stop = stop\<rparr>,
             bi_data = \<lparr>stream = st, rep_Frames = []\<rparr>\<rparr>,
        sr\<lparr>connections := connections sr @ [conn]\<rparr>)"
  using assms by (simp add: Read_def connect_def zero_ReadRequest_def Let_def)

text \<open>
  The amended claim at a read spec with limit 5 and the time pair \<open>(10, 20)\<close>.
\<close>

theorem Read_request_witness:
  "Read (Inr 0) ok_rpc \<lparr>connections = []\<rparr> limit_spec 10 20
     = (Some \<lparr>req_Database = ''mydb'', req_Predicate = None, req_Limit = 0, req_Descending = True,
              req_Start = 10, req_End = 20\<rparr>,
        Inr \<lparr>bi_bounds = \<lparr>b_Start = 10, b_Stop = 20\<rparr>,
             bi_data = \<lparr>stream = one_series EOF, rep_Frames = []\<rparr>\<rparr>,
        \<lparr>connections = [0]\<rparr>)"
  using Read_request [of "Inr 0" 0 ok_rpc limit_spec 10 20 "one_series EOF" "\<lparr>connections = []\<rparr>"]
  by (simp add: ok_rpc_def limit_spec_def)

text \<open>
  Claim C6 as stated fails: for a read spec with \<open>Limit = 5\<close> the request sent has
  \<open>Limit = 0\<close>.
\<close>

theorem Read_drops_limit_counterexample:
  "map_option req_Limit (fst (Read (Inr 0) ok_rpc \<lparr>connections = []\<rparr> limit_spec 10 20)) = Some 0 \<and>
   map_option req_Limit (fst (Read (Inr 0) ok_rpc \<lparr>connections = []\<rparr> limit_spec 10 20))
     \<noteq> Some (rs_Limit limit_spec)"
  by (simp add: Read_def connect_def zero_ReadRequest_def Let_def ok_rpc_def limit_spec_def)


section \<open>Properties of the filter transformation\<close>


lemma compile_all_other:
  "typ \<notin> set typs \<Longrightarrow> compile_all X fn valueOP typs types ces typ = ces typ"
  by (induction typs arbitrary: types ces) (auto simp: Let_def split: sum.splits)

lemma compile_all_error:
  assumes "typ \<in> set typs"
    and "\<And>x. x \<noteq> valueOP \<Longrightarrow> types x = base x"
    and "CompileExpression X fn (base(valueOP \<mapsto> typ)) = Inl err"
  shows "compile_all X fn valueOP typs types ces typ = Some \<lparr>Err = Some (External err), Expr = None\<rparr>"
  using assms
proof (induction typs arbitrary: types ces)
  case Nil
  then show ?case by simp
next
  case (Cons h typs)
  have t1: "types(valueOP \<mapsto> h) = base(valueOP \<mapsto> h)"
    using Cons.prems(2) by (auto simp: fun_eq_iff)
  have keep: "\<And>x. x \<noteq> valueOP \<Longrightarrow> (types(valueOP \<mapsto> h)) x = base x"
    using Cons.prems(2) by simp
  show ?case
  proof (cases "typ \<in> set typs")
    case True
    have ih: "\<And>ces. compile_all X fn valueOP typs (types(valueOP \<mapsto> h)) ces typ
        = Some \<lparr>Err = Some (External err), Expr = None\<rparr>"
      by (rule Cons.IH [OF True keep Cons.prems(3)])
    show ?thesis
      by (simp add: ih Let_def split: sum.splits)
  next
    case False
    then have h: "h = typ" using Cons.prems(1) by simp
    have c: "CompileExpression X fn (types(valueOP \<mapsto> typ)) = Inl err"
      unfolding t1 [unfolded h] by (rule Cons.prems(3))
    show ?thesis
      using False by (simp add: h c Let_def compile_all_other)
  qed
qed

lemma NewFilterTransformation_stores_error:
  assumes "length (Params fn) = 1" "ObjectProperties X fn = Inr properties"
    and "typ \<in> set (ValueDataTypes X)"
    and "CompileExpression X fn
           ((property_types properties \<lparr>Object = Params fn ! 0, Property = ''_value''\<rparr>)
              (\<lparr>Object = Params fn ! 0, Property = ''_value''\<rparr> \<mapsto> typ)) = Inl err"
  shows "\<exists>t. NewFilterTransformation X fn = Inr t \<and>
             ft_ces t typ = Some \<lparr>Err = Some (External err), Expr = None\<rparr>"
  using assms(1,2) compile_all_error [OF assms(3) _ assms(4), of "property_types properties \<lparr>Object = Params fn ! 0, Property = ''_value''\<rparr>" Map.empty]
  by (simp add: NewFilterTransformation_def Let_def)

lemma Process_compile_error:
  assumes "ft_ces t typ = Some \<lparr>Err = Some err, Expr = ex\<rparr>"
    and "0 \<le> ValueIdx X (fb_Cols b)" "ValueIdx X (fb_Cols b) < int (length (fb_Cols b))"
    and "Type (fb_Cols b ! nat (ValueIdx X (fb_Cols b))) = typ"
  shows "\<exists>t1. Process X t cache lg b
     = Ok (Some (DoesNotSupportType typ err), t1,
           cache(ToBlockKey b \<mapsto> (case cache (ToBlockKey b) of
                                      Some bld \<Rightarrow> bld
                                    | None \<Rightarrow> AddBlockCols b new_builder)),
           lg)"
  using assms
  by (auto simp: Process_def Let_def cache_BlockBuilder_def split: option.splits)



text \<open>
  Claim C7.  Take a filter function of one parameter whose properties can be collected and
  whose expression fails to compile for the value type \<open>typ\<close>, one of \<open>ValueDataTypes\<close>.
  \<open>NewFilterTransformation\<close> succeeds, and the transformation stores the compilation error
  under \<open>typ\<close>.  \<open>Process\<close>, in whatever state the transformation is by then, returns the
  stored error, wrapped as "expression does not support type", on a block whose value column
  has the type \<open>typ\<close>; no row of the block reaches the builder.
\<close>

theorem filter_compile_error_deferred:
  assumes "length (Params fn) = 1" and "ObjectProperties X fn = Inr properties"
    and "typ \<in> set (ValueDataTypes X)"
    and "CompileExpression X fn
           ((property_types properties \<lparr>Object = Params fn ! 0, Property = ''_value''\<rparr>)
              (\<lparr>Object = Params fn ! 0, Property = ''_value''\<rparr> \<mapsto> typ)) = Inl err"
    and "0 \<le> ValueIdx X (fb_Cols b)" and "ValueIdx X (fb_Cols b) < int (length (fb_Cols b))"
    and "Type (fb_Cols b ! nat (ValueIdx X (fb_Cols b))) = typ"
  shows "\<exists>t. NewFilterTransformation X fn = Inr t \<and>
           ft_ces t typ = Some \<lparr>Err = Some (External err), Expr = None\<rparr> \<and>
           (\<forall>t'. ft_ces t' = ft_ces t \<longrightarrow>
              (\<exists>t1. Process X t' cache lg b
                 = Ok (Some (DoesNotSupportType typ (External err)), t1,
                       cache(ToBlockKey b \<mapsto> (case cache (ToBlockKey b) of
                                                  Some bld \<Rightarrow> bld
                                                | None \<Rightarrow> AddBlockCols b new_builder)),
                       lg)))"
proof -
  from NewFilterTransformation_stores_error [OF assms(1-4)]
  obtain t where t: "NewFilterTransformation X fn = Inr t"
    "ft_ces t typ = Some \<lparr>Err = Some (External err), Expr = None\<rparr>" by blast
  have "\<exists>t1. Process X t' cache lg b
                 = Ok (Some (DoesNotSupportType typ (External err)), t1,
                       cache(ToBlockKey b \<mapsto> (case cache (ToBlockKey b) of
                                                  Some bld \<Rightarrow> bld
                                                | None \<Rightarrow> AddBlockCols b new_builder)),
                       lg)" if "ft_ces t' = ft_ces t" for t'
    using Process_compile_error [OF _ assms(5-7), of t' "External err" None cache lg] t(2) that
    by simp
  with t show ?thesis by blast
qed

text \<open>
  Claim C7 at the filter \<open>(r) => r._value > 5\<close> and a block with a string-valued column.
\<close>

theorem filter_compile_error_deferred_witness:
  "length (Params value_gt_5) = 1 \<and>
   ObjectProperties gt_5_pkg value_gt_5 = Inr [r_value] \<and>
   E_TString \<in> set (ValueDataTypes gt_5_pkg) \<and>
   Type (fb_Cols string_block ! nat (ValueIdx gt_5_pkg (fb_Cols string_block))) = E_TString \<and>
   (\<exists>t. NewFilterTransformation gt_5_pkg value_gt_5 = Inr t \<and>
        ft_ces t E_TString = Some \<lparr>Err = Some (External ''unsupported binary operator >''), Expr = None\<rparr> \<and>
        (\<exists>t1. Process gt_5_pkg t Map.empty [] string_block
           = Ok (Some (DoesNotSupportType E_TString (External ''unsupported binary operator >'')), t1,
                 [ToBlockKey string_block \<mapsto> AddBlockCols string_block new_builder], [])))"
proof -
  have 1: "length (Params value_gt_5) = 1" by (simp add: value_gt_5_def)
  have 2: "ObjectProperties gt_5_pkg value_gt_5 = Inr [r_value]" by (simp add: gt_5_pkg_def)
  have 3: "E_TString \<in> set (ValueDataTypes gt_5_pkg)" by (simp add: gt_5_pkg_def)
  have 4: "CompileExpression gt_5_pkg value_gt_5
           ((property_types [r_value] \<lparr>Object = Params value_gt_5 ! 0, Property = ''_value''\<rparr>)
              (\<lparr>Object = Params value_gt_5 ! 0, Property = ''_value''\<rparr> \<mapsto> E_TString))
        = Inl ''unsupported binary operator >''"
    by (simp add: gt_5_pkg_def compile_gt_5_def value_gt_5_def r_value_def)
  have 5: "0 \<le> ValueIdx gt_5_pkg (fb_Cols string_block)" by (simp add: gt_5_pkg_def)
  have 6: "ValueIdx gt_5_pkg (fb_Cols string_block) < int (length (fb_Cols string_block))"
    by (simp add: gt_5_pkg_def string_block_def)
  have 7: "Type (fb_Cols string_block ! nat (ValueIdx gt_5_pkg (fb_Cols string_block))) = E_TString"
    by (simp add: gt_5_pkg_def string_block_def)
  from filter_compile_error_deferred [OF 1 2 3 4 5 6 7, of Map.empty "[]"]
  obtain t where t: "NewFilterTransformation gt_5_pkg value_gt_5 = Inr t"
    "ft_ces t E_TString = Some \<lparr>Err = Some (External ''unsupported binary operator >''), Expr = None\<rparr>"
    "\<exists>t1. Process gt_5_pkg t Map.empty [] string_block
           = Ok (Some (DoesNotSupportType E_TString (External ''unsupported binary operator >'')), t1,
                 [ToBlockKey string_block \<mapsto> AddBlockCols string_block new_builder], [])"
    by auto
  with 1 2 3 7 show ?thesis by blast
qed



lemma prepare_scopeCols_range:
  assumes "\<forall>name j. sc name = Some j \<longrightarrow> 0 \<le> j \<and> j < n"
    and "0 \<le> vi" "vi < n" and "\<forall>p \<in> set cs. int (fst p) < n"
  shows "\<forall>name j. prepare_scopeCols vl props vi cs sc name = Some j \<longrightarrow> 0 \<le> j \<and> j < n"
  using assms
proof (induction cs arbitrary: sc)
  case Nil
  then show ?case by simp
next
  case (Cons p cs)
  obtain k c where p: "p = (k, c)" by (cases p)
  have k: "int k < n" using Cons.prems(4) p by simp
  have rest: "\<forall>p \<in> set cs. int (fst p) < n" using Cons.prems(4) by simp
  have a: "\<forall>name j. (sc(''_value'' \<mapsto> vi)) name = Some j \<longrightarrow> 0 \<le> j \<and> j < n"
    using Cons.prems(1-3) by auto
  have b: "\<forall>name j. (sc(Label c \<mapsto> int k)) name = Some j \<longrightarrow> 0 \<le> j \<and> j < n"
    using Cons.prems(1) k by auto
  consider (v) "Label c = vl"
    | (l) "Label c \<noteq> vl" "\<exists>op \<in> set props. Property op = Label c"
    | (n) "Label c \<noteq> vl" "\<not> (\<exists>op \<in> set props. Property op = Label c)" by blast
  then show ?case
  proof cases
    case v
    then have "prepare_scopeCols vl props vi (p # cs) sc
        = prepare_scopeCols vl props vi cs (sc(''_value'' \<mapsto> vi))" by (simp add: p)
    then show ?thesis
      using Cons.IH [of "sc(''_value'' \<mapsto> vi)", OF a Cons.prems(2,3) rest] by presburger
  next
    case l
    then have "prepare_scopeCols vl props vi (p # cs) sc
        = prepare_scopeCols vl props vi cs (sc(Label c \<mapsto> int k))" by (simp add: p)
    then show ?thesis
      using Cons.IH [of "sc(Label c \<mapsto> int k)", OF b Cons.prems(2,3) rest] by presburger
  next
    case n
    then have "prepare_scopeCols vl props vi (p # cs) sc
        = prepare_scopeCols vl props vi cs sc" by (simp add: p)
    then show ?thesis
      using Cons.IH [of sc, OF Cons.prems(1-3) rest] by presburger
  qed
qed

lemma scopeCol_range:
  assumes "\<forall>name j. sc name = Some j \<longrightarrow> 0 \<le> j \<and> j < n" "0 < n"
  shows "0 \<le> scopeCol sc name \<and> scopeCol sc name < n"
  using assms by (auto simp: scopeCol_def split: option.splits)

lemma populate_row_scope:
  assumes "i < length rr"
    and "\<forall>name. 0 \<le> scopeCol sc name \<and> scopeCol sc name < int (length (rr ! i))"
  shows "populate props sc i rr scope
     = Ok (\<lambda>op. if op \<in> set props then Some (rr ! i ! nat (scopeCol sc (Property op))) else scope op)"
  using assms
proof (induction props arbitrary: scope)
  case Nil
  then show ?case by simp
next
  case (Cons p props)
  have r: "nat (scopeCol sc (Property p)) < length (rr ! i)" "\<not> scopeCol sc (Property p) < 0"
    using Cons.prems(2) [rule_format, of "Property p"] by auto
  have v: "ValueForRow i (nat (scopeCol sc (Property p))) rr = Ok (rr ! i ! nat (scopeCol sc (Property p)))"
    using r Cons.prems(1) by (simp add: ValueForRow_def)
  show ?case
    using r(2) by (simp add: v Cons.IH [OF Cons.prems] fun_eq_iff)
qed

lemma length_add_cells: "length (add_cells cs r d) = length d"
  by (induction cs r d rule: add_cells.induct) auto

lemma append_row_add_cells:
  assumes "i < length rr"
    and "\<forall>p \<in> set cs. fst p < length (rr ! i) \<and> cell_type (rr ! i ! fst p) = Type (snd p)
            \<and> fst p < length (bb_data bld)"
  shows "append_row cs i rr bld = Ok (bld\<lparr>bb_data := add_cells cs (rr ! i) (bb_data bld)\<rparr>)"
  using assms
proof (induction cs arbitrary: bld)
  case Nil
  then show ?case by simp
next
  case (Cons p cs)
  obtain j c where p: "p = (j, c)" by (cases p)
  have j: "j < length (rr ! i)" "cell_type (rr ! i ! j) = Type c" "j < length (bb_data bld)"
    using Cons.prems(2) p by auto
  have nz: "Type c \<noteq> E_TInvalid" using j(2) by (cases "rr ! i ! j") auto
  have at: "At (Type c) i j rr = Ok (rr ! i ! j)"
    using j Cons.prems(1) by (simp add: At_def)
  have ap: "Append j (rr ! i ! j) bld = Ok (bld\<lparr>bb_data := (bb_data bld)[j := bb_data bld ! j @ [rr ! i ! j]]\<rparr>)"
    using j(3) by (simp add: Append_def)
  have rest: "\<forall>p \<in> set cs. fst p < length (rr ! i) \<and> cell_type (rr ! i ! fst p) = Type (snd p)
            \<and> fst p < length (bb_data bld)"
    using Cons.prems(2) by simp
  show ?case
  proof (cases "IsCommon c")
    case True
    then show ?thesis using Cons.IH [OF Cons.prems(1) rest] by (simp add: p)
  next
    case False
    have rest': "\<forall>p \<in> set cs. fst p < length (rr ! i) \<and> cell_type (rr ! i ! fst p) = Type (snd p)
            \<and> fst p < length (bb_data (bld\<lparr>bb_data := (bb_data bld)[j := bb_data bld ! j @ [rr ! i ! j]]\<rparr>))"
      using rest by simp
    show ?thesis
      using False nz by (simp add: p at ap Cons.IH [OF Cons.prems(1) rest'])
  qed
qed

lemma add_cells_nth:
  assumes "k + length cs \<le> length d" "j < length d"
  shows "add_cells (enumerate k cs) r d ! j
     = (if k \<le> j \<and> j < k + length cs \<and> \<not> IsCommon (cs ! (j - k)) then d ! j @ [r ! j] else d ! j)"
  using assms
proof (induction cs arbitrary: k d)
  case Nil
  then show ?case by simp
next
  case (Cons c cs)
  have l: "Suc k + length cs \<le> length d" using Cons.prems(1) by simp
  show ?case
  proof (cases "IsCommon c")
    case True
    show ?thesis
      using Cons.IH [OF l Cons.prems(2)] True
      by (auto simp: nth_Cons' Suc_diff_le less_Suc_eq_le not_less_eq_eq)
  next
    case False
    let ?d = "d[k := d ! k @ [r ! k]]"
    have l': "Suc k + length cs \<le> length ?d" "j < length ?d" using l Cons.prems(2) by simp_all
    show ?thesis
      using Cons.IH [OF l'] False Cons.prems
      by (auto simp: nth_Cons' nth_list_update Suc_diff_le)
  qed
qed



lemma filter_rows_effect:
  assumes wt: "\<forall>r \<in> set rr. list_all2 (\<lambda>v c. cell_type v = Type c) r cols"
    and idx: "\<forall>i \<in> set idxs. i < length rr"
    and scr: "\<forall>name. 0 \<le> scopeCol sc name \<and> scopeCol sc name < int (length cols)"
    and len: "length cols \<le> length (bb_data bld)"
    and ev: "\<forall>scope e. EvalBool ce scope \<noteq> (True, Some e)"
    and inv: "\<forall>op. op \<notin> set props \<longrightarrow> scope op = s0 op"
  shows "\<exists>scope'. filter_rows props sc (Some ce) cols rr idxs (scope, bld, lg)
       = Ok (scope',
             bld\<lparr>bb_data := foldl (\<lambda>d r. add_cells (enumerate 0 cols) r d) (bb_data bld)
                 (filter (\<lambda>r. EvalBool ce (row_scope props sc s0 r) = (True, None)) (map ((!) rr) idxs))\<rparr>,
             lg @ concat (map (\<lambda>r. case snd (EvalBool ce (row_scope props sc s0 r)) of
                                     Some e \<Rightarrow> [''failed to evaluate expression: '' @ e]
                                   | None \<Rightarrow> [])
                              (map ((!) rr) idxs)))
       \<and> (\<forall>op. op \<notin> set props \<longrightarrow> scope' op = s0 op)"
  using idx len inv
proof (induction idxs arbitrary: scope bld lg)
  case Nil
  then show ?case by simp
next
  case (Cons i idxs)
  have i: "i < length rr" using Cons.prems(1) by simp
  have rest: "\<forall>i \<in> set idxs. i < length rr" using Cons.prems(1) by simp
  have row: "list_all2 (\<lambda>v c. cell_type v = Type c) (rr ! i) cols" using wt i by simp
  have lrow: "length (rr ! i) = length cols" using row by (rule list_all2_lengthD)
  define scope1 where "scope1 = row_scope props sc s0 (rr ! i)"
  have pop: "populate props sc i rr scope = Ok scope1"
  proof -
    have "populate props sc i rr scope
       = Ok (\<lambda>op. if op \<in> set props then Some (rr ! i ! nat (scopeCol sc (Property op))) else scope op)"
      using i scr lrow by (intro populate_row_scope) simp_all
    also have "(\<lambda>op. if op \<in> set props then Some (rr ! i ! nat (scopeCol sc (Property op))) else scope op) = scope1"
      using Cons.prems(3) by (auto simp: scope1_def row_scope_def fun_eq_iff)
    finally show ?thesis .
  qed
  have inv1: "\<forall>op. op \<notin> set props \<longrightarrow> scope1 op = s0 op"
    by (simp add: scope1_def row_scope_def)
  obtain pass err where e: "EvalBool ce scope1 = (pass, err)" by (cases "EvalBool ce scope1")
  show ?case
  proof (cases pass)
    case False
    show ?thesis
    proof (cases err)
      case None
      from Cons.IH [OF rest Cons.prems(2) inv1, of lg]
      show ?thesis using False None e pop by (simp add: scope1_def [symmetric])
    next
      case (Some m)
      from Cons.IH [OF rest Cons.prems(2) inv1, of "lg @ [''failed to evaluate expression: '' @ m]"]
      show ?thesis using False Some e pop by (simp add: scope1_def [symmetric])
    qed
  next
    case True
    have err: "err = None" using ev e True by (cases err) auto
    have cs: "\<forall>p \<in> set (enumerate 0 cols). fst p < length (rr ! i)
        \<and> cell_type (rr ! i ! fst p) = Type (snd p) \<and> fst p < length (bb_data bld)"
    proof
      fix p assume "p \<in> set (enumerate 0 cols)"
      then have p: "fst p < length cols" "snd p = cols ! fst p"
        by (auto simp: in_set_enumerate_eq)
      have "cell_type (rr ! i ! fst p) = Type (cols ! fst p)"
        using row p(1) by (simp add: list_all2_conv_all_nth)
      then show "fst p < length (rr ! i) \<and> cell_type (rr ! i ! fst p) = Type (snd p)
          \<and> fst p < length (bb_data bld)"
        using p lrow Cons.prems(2) by simp
    qed
    let ?bld = "bld\<lparr>bb_data := add_cells (enumerate 0 cols) (rr ! i) (bb_data bld)\<rparr>"
    have app: "append_row (enumerate 0 cols) i rr bld = Ok ?bld"
      by (rule append_row_add_cells [OF i cs])
    have len1: "length cols \<le> length (bb_data ?bld)"
      using Cons.prems(2) by (simp add: length_add_cells)
    from Cons.IH [OF rest len1 inv1, of lg]
    show ?thesis using True err e pop app by (simp add: scope1_def [symmetric])
  qed
qed



lemma filter_frames_effect:
  assumes wt: "\<forall>rr \<in> set frames. \<forall>r \<in> set rr. list_all2 (\<lambda>v c. cell_type v = Type c) r cols"
    and scr: "\<forall>name. 0 \<le> scopeCol sc name \<and> scopeCol sc name < int (length cols)"
    and len: "length cols \<le> length (bb_data bld)"
    and ev: "\<forall>scope e. EvalBool ce scope \<noteq> (True, Some e)"
    and inv: "\<forall>op. op \<notin> set props \<longrightarrow> scope op = s0 op"
  shows "\<exists>scope'. filter_frames props sc (Some ce) cols frames (scope, bld, lg)
       = Ok (scope',
             bld\<lparr>bb_data := foldl (\<lambda>d r. add_cells (enumerate 0 cols) r d) (bb_data bld)
                 (filter (\<lambda>r. EvalBool ce (row_scope props sc s0 r) = (True, None)) (concat frames))\<rparr>,
             lg @ concat (map (\<lambda>r. case snd (EvalBool ce (row_scope props sc s0 r)) of
                                     Some e \<Rightarrow> [''failed to evaluate expression: '' @ e]
                                   | None \<Rightarrow> [])
                              (concat frames)))"
  using wt len inv
proof (induction frames arbitrary: scope bld lg)
  case Nil
  then show ?case by simp
next
  case (Cons rr frames)
  have wt1: "\<forall>r \<in> set rr. list_all2 (\<lambda>v c. cell_type v = Type c) r cols"
    and wt2: "\<forall>rr \<in> set frames. \<forall>r \<in> set rr. list_all2 (\<lambda>v c. cell_type v = Type c) r cols"
    using Cons.prems(1) by simp_all
  have idx: "\<forall>i \<in> set [0..<length rr]. i < length rr" by simp
  let ?P = "\<lambda>r. EvalBool ce (row_scope props sc s0 r) = (True, None)"
  let ?M = "\<lambda>r. case snd (EvalBool ce (row_scope props sc s0 r)) of
                    Some e \<Rightarrow> [''failed to evaluate expression: '' @ e] | None \<Rightarrow> []"
  let ?add = "\<lambda>d r. add_cells (enumerate 0 cols) r d"
  from filter_rows_effect [OF wt1 idx scr Cons.prems(2) ev Cons.prems(3), of lg]
  obtain scope1 where
    1: "filter_rows props sc (Some ce) cols rr [0..<length rr] (scope, bld, lg)
          = Ok (scope1, bld\<lparr>bb_data := foldl ?add (bb_data bld) (filter ?P rr)\<rparr>,
                lg @ concat (map ?M rr))"
    and inv1: "\<forall>op. op \<notin> set props \<longrightarrow> scope1 op = s0 op"
    by (auto simp: map_nth)
  let ?bld = "bld\<lparr>bb_data := foldl ?add (bb_data bld) (filter ?P rr)\<rparr>"
  have lfold: "length (foldl ?add d rs) = length d" for d rs
    by (induction rs arbitrary: d) (simp_all add: length_add_cells)
  have len1: "length cols \<le> length (bb_data ?bld)"
    using Cons.prems(2) by (simp add: lfold)
  from Cons.IH [OF wt2 len1 inv1, of "lg @ concat (map ?M rr)"]
  show ?case using 1 by simp
qed

lemma add_rows_nth:
  assumes "length cols \<le> length d" "j < length d"
  shows "foldl (\<lambda>d r. add_cells (enumerate 0 cols) r d) d rows ! j
     = (if j < length cols \<and> \<not> IsCommon (cols ! j) then d ! j @ map (\<lambda>r. r ! j) rows else d ! j)"
  using assms
proof (induction rows arbitrary: d)
  case Nil
  then show ?case by simp
next
  case (Cons r rows)
  let ?d = "add_cells (enumerate 0 cols) r d"
  have l: "length cols \<le> length ?d" "j < length ?d"
    using Cons.prems by (simp_all add: length_add_cells)
  have h: "?d ! j = (if j < length cols \<and> \<not> IsCommon (cols ! j) then d ! j @ [r ! j] else d ! j)"
    using add_cells_nth [of 0 cols d j r] Cons.prems by simp
  show ?case using Cons.IH [OF l] h by simp
qed

lemma length_add_rows:
  "length (foldl (\<lambda>d r. add_cells (enumerate 0 cols) r d) d rows) = length d"
  by (induction rows arbitrary: d) (simp_all add: length_add_cells)

text \<open>
  Claim C8.  \<open>Process\<close> runs on a well-typed block whose value type has a compiled
  expression \<open>ce\<close>; the builder of the block has a column for each column of the block,
  and \<open>EvalBool\<close> returns \<open>false\<close> whenever it returns an error.  Then \<open>Process\<close> returns
  nil; the log grows by one line for each row whose evaluation returned an error; and every
  column of the builder that is not common grows by the cells of exactly the rows on which
  the predicate is true, in order, while the common columns are left as they were.  A row
  on which the predicate is false or fails is not appended.
\<close>

theorem filter_keeps_passing_rows:
  assumes ces: "ft_ces t (Type (fb_Cols b ! vi)) = Some \<lparr>Err = None, Expr = Some ce\<rparr>"
    and vi: "ValueIdx X (fb_Cols b) = int vi" "vi < length (fb_Cols b)"
    and wt: "well_typed b"
    and sc: "\<forall>name j. ft_scopeCols t name = Some j \<longrightarrow> 0 \<le> j \<and> j < int (length (fb_Cols b))"
    and bld: "length (fb_Cols b) \<le> length (bb_data (start_builder cache b))"
    and ev: "\<forall>scope e. EvalBool ce scope \<noteq> (True, Some e)"
  shows "\<exists>t1 bld1.
      Process X t cache lg b = Ok (None, t1, cache(ToBlockKey b \<mapsto> bld1), lg @ error_log X t ce b) \<and>
      bb_Cols bld1 = bb_Cols (start_builder cache b) \<and>
      length (bb_data bld1) = length (bb_data (start_builder cache b)) \<and>
      (\<forall>j < length (bb_data bld1).
         bb_data bld1 ! j =
           (if j < length (fb_Cols b) \<and> \<not> IsCommon (fb_Cols b ! j)
            then bb_data (start_builder cache b) ! j @ map (\<lambda>r. r ! j) (kept_rows X t ce b)
            else bb_data (start_builder cache b) ! j))"
proof -
  let ?cols = "fb_Cols b"
  let ?sc = "block_scopeCols X t b"
  let ?b0 = "start_builder cache b"
  have en: "\<forall>p \<in> set (enumerate 0 ?cols). int (fst p) < int (length ?cols)"
    by (auto simp: in_set_enumerate_eq)
  have rng: "\<forall>name j. ?sc name = Some j \<longrightarrow> 0 \<le> j \<and> j < int (length ?cols)"
    unfolding block_scopeCols_def vi(1)
    using vi(2) by (intro prepare_scopeCols_range [OF sc _ _ en]) simp_all
  have scr: "\<forall>name. 0 \<le> scopeCol ?sc name \<and> scopeCol ?sc name < int (length ?cols)"
    using scopeCol_range [OF rng] vi(2) by fastforce
  have wt': "\<forall>rr \<in> set (fb_frames b). \<forall>r \<in> set rr. list_all2 (\<lambda>v c. cell_type v = Type c) r ?cols"
    using wt by (simp add: well_typed_def)
  have inv: "\<forall>op. op \<notin> set (ft_properties t) \<longrightarrow> ft_scope t op = ft_scope t op" by simp
  from filter_frames_effect [OF wt' scr bld ev inv, of lg]
  obtain scope1 where run: "filter_frames (ft_properties t) ?sc (Some ce) ?cols (fb_frames b)
        (ft_scope t, ?b0, lg)
      = Ok (scope1,
            ?b0\<lparr>bb_data := foldl (\<lambda>d r. add_cells (enumerate 0 ?cols) r d) (bb_data ?b0) (kept_rows X t ce b)\<rparr>,
            lg @ error_log X t ce b)"
    by (auto simp: kept_rows_def error_log_def eval_row_def)
  let ?b1 = "?b0\<lparr>bb_data := foldl (\<lambda>d r. add_cells (enumerate 0 ?cols) r d) (bb_data ?b0) (kept_rows X t ce b)\<rparr>"
  have proc: "Process X t cache lg b
      = Ok (None, t\<lparr>ft_scopeCols := ?sc, ft_scope := scope1\<rparr>, cache(ToBlockKey b \<mapsto> ?b1),
            lg @ error_log X t ce b)"
  proof (cases "cache (ToBlockKey b)")
    case None
    then have s: "?b0 = AddBlockCols b new_builder" by (simp add: start_builder_def)
    show ?thesis
      using vi ces run [unfolded s block_scopeCols_def]
      by (simp add: Process_def Let_def block_scopeCols_def cache_BlockBuilder_def None s)
  next
    case (Some bld0)
    then have s: "?b0 = bld0" by (simp add: start_builder_def)
    show ?thesis
      using vi ces run [unfolded s block_scopeCols_def]
      by (simp add: Process_def Let_def block_scopeCols_def cache_BlockBuilder_def Some s)
  qed
  have cols: "\<forall>j < length (bb_data ?b1).
         bb_data ?b1 ! j =
           (if j < length ?cols \<and> \<not> IsCommon (?cols ! j)
            then bb_data ?b0 ! j @ map (\<lambda>r. r ! j) (kept_rows X t ce b)
            else bb_data ?b0 ! j)"
    using bld by (simp add: length_add_rows add_rows_nth)
  show ?thesis
    using proc cols by (intro exI [of _ "t\<lparr>ft_scopeCols := ?sc, ft_scope := scope1\<rparr>"] exI [of _ ?b1])
      (simp add: length_add_rows)
qed



lemma New_gt_5: "NewFilterTransformation gt_5_pkg value_gt_5 = Inr gt_5_transformation"
  by (simp add: NewFilterTransformation_def gt_5_pkg_def value_gt_5_def Let_def property_types_def
      compile_gt_5_def r_value_def gt_5_transformation_def gt_5_ce_def fun_upd_twist)

text \<open>
  Claim C8 at the filter \<open>(r) => r._value > 5\<close> and a float block of four rows: the rows with
  the values 6 and 8 are appended without the common tag column, the row with the value 1
  is skipped, and the row whose evaluation fails is skipped and logged.
\<close>

theorem filter_keeps_passing_rows_witness:
  "ft_ces gt_5_transformation (Type (fb_Cols float_block ! 1)) = Some \<lparr>Err = None, Expr = Some gt_5_ce\<rparr> \<and>
   well_typed float_block \<and>
   (\<forall>scope e. EvalBool gt_5_ce scope \<noteq> (True, Some e)) \<and>
   kept_rows gt_5_pkg gt_5_transformation gt_5_ce float_block
     = [[CTime 2, CFloat (Finite 6), CString ''a''], [CTime 4, CFloat (Finite 8), CString ''a'']] \<and>
   error_log gt_5_pkg gt_5_transformation gt_5_ce float_block
     = [''failed to evaluate expression: value is not a number''] \<and>
   (\<exists>t1 bld1.
      Process gt_5_pkg gt_5_transformation Map.empty [] float_block
        = Ok (None, t1, [ToBlockKey float_block \<mapsto> bld1],
              [''failed to evaluate expression: value is not a number'']) \<and>
      bb_data bld1 = [[CTime 2, CTime 4], [CFloat (Finite 6), CFloat (Finite 8)], []])"
proof -
  have ces: "ft_ces gt_5_transformation (Type (fb_Cols float_block ! 1))
      = Some \<lparr>Err = None, Expr = Some gt_5_ce\<rparr>"
    by (simp add: gt_5_transformation_def float_block_def)
  have vi: "ValueIdx gt_5_pkg (fb_Cols float_block) = int 1" "1 < length (fb_Cols float_block)"
    by (simp_all add: gt_5_pkg_def float_block_def)
  have wt: "well_typed float_block"
    by (simp add: well_typed_def float_block_def)
  have sc: "\<forall>name j. ft_scopeCols gt_5_transformation name = Some j
      \<longrightarrow> 0 \<le> j \<and> j < int (length (fb_Cols float_block))"
    by (simp add: gt_5_transformation_def)
  have bld: "length (fb_Cols float_block) \<le> length (bb_data (start_builder Map.empty float_block))"
    by (simp add: start_builder_def AddBlockCols_def new_builder_def)
  have ev: "\<forall>scope e. EvalBool gt_5_ce scope \<noteq> (True, Some e)"
    by (auto simp: gt_5_ce_def eval_gt_5_def split: option.splits cell.splits float64.splits)
  have scs: "block_scopeCols gt_5_pkg gt_5_transformation float_block = [''_value'' \<mapsto> 1]"
    by (simp add: block_scopeCols_def gt_5_pkg_def gt_5_transformation_def float_block_def
        enumerate_eq_zip r_value_def upt_rec)
  have tp: "ft_properties gt_5_transformation = [r_value]" "ft_scope gt_5_transformation = Map.empty"
    by (simp_all add: gt_5_transformation_def)
  have rs: "row_scope [r_value] [''_value'' \<mapsto> 1] Map.empty r = [r_value \<mapsto> r ! 1]" for r
    by (auto simp: row_scope_def scopeCol_def r_value_def fun_eq_iff)
  have er: "eval_row gt_5_pkg gt_5_transformation gt_5_ce float_block r
      = eval_gt_5 [r_value \<mapsto> r ! 1]" for r
    by (simp add: eval_row_def scs tp rs gt_5_ce_def)
  have kept: "kept_rows gt_5_pkg gt_5_transformation gt_5_ce float_block
     = [[CTime 2, CFloat (Finite 6), CString ''a''], [CTime 4, CFloat (Finite 8), CString ''a'']]"
    by (simp add: kept_rows_def er) (simp add: float_block_def eval_gt_5_def)
  have elog: "error_log gt_5_pkg gt_5_transformation gt_5_ce float_block
     = [''failed to evaluate expression: value is not a number'']"
    by (simp add: error_log_def er) (simp add: float_block_def eval_gt_5_def)
  have sb: "bb_data (start_builder Map.empty float_block) = [[], [], []]"
    by (simp add: start_builder_def AddBlockCols_def new_builder_def float_block_def)
  from filter_keeps_passing_rows [OF ces vi wt sc bld ev, of "[]"]
  obtain t1 bld1 where p:
    "Process gt_5_pkg gt_5_transformation Map.empty [] float_block
       = Ok (None, t1, [ToBlockKey float_block \<mapsto> bld1],
             [] @ error_log gt_5_pkg gt_5_transformation gt_5_ce float_block)"
    "bb_Cols bld1 = bb_Cols (start_builder Map.empty float_block)"
    "length (bb_data bld1) = length (bb_data (start_builder Map.empty float_block))"
    "\<forall>j < length (bb_data bld1).
         bb_data bld1 ! j =
           (if j < length (fb_Cols float_block) \<and> \<not> IsCommon (fb_Cols float_block ! j)
            then bb_data (start_builder Map.empty float_block) ! j
                   @ map (\<lambda>r. r ! j) (kept_rows gt_5_pkg gt_5_transformation gt_5_ce float_block)
            else bb_data (start_builder Map.empty float_block) ! j)"
    by (elim exE conjE) (rule that)
  have l: "length (bb_data bld1) = 3" using p(3) by (simp add: sb)
  have c0: "bb_data bld1 ! 0 = [CTime 2, CTime 4]"
    using p(4) [rule_format, of 0] l by (simp add: sb kept) (simp add: float_block_def)
  have c1: "bb_data bld1 ! 1 = [CFloat (Finite 6), CFloat (Finite 8)]"
    using p(4) [rule_format, of 1] l by (simp add: sb kept) (simp add: float_block_def)
  have c2: "bb_data bld1 ! 2 = []"
    using p(4) [rule_format, of 2] l by (simp add: sb kept) (simp add: float_block_def)
  have data: "bb_data bld1 = [[CTime 2, CTime 4], [CFloat (Finite 6), CFloat (Finite 8)], []]"
  proof -
    from l obtain x y z where xyz: "bb_data bld1 = [x, y, z]"
      by (auto simp: length_Suc_conv numeral_3_eq_3)
    show ?thesis using c0 c1 c2 by (simp add: xyz)
  qed
  have ex: "\<exists>t1 bld1.
      Process gt_5_pkg gt_5_transformation Map.empty [] float_block
        = Ok (None, t1, [ToBlockKey float_block \<mapsto> bld1],
              [''failed to evaluate expression: value is not a number'']) \<and>
      bb_data bld1 = [[CTime 2, CTime 4], [CFloat (Finite 6), CFloat (Finite 8)], []]"
    using p(1) data by (intro exI [of _ t1] exI [of _ bld1]) (simp add: elog)
  show ?thesis
    by (rule conjI [OF ces conjI [OF wt conjI [OF ev conjI [OF kept conjI [OF elog ex]]]]])
qed

section \<open>Theorems about the evaluator\<close>

lemma resolveParameters_keys:
  "resolveParameters R params acc ev = Return (pm, ev') \<Longrightarrow>
     map fst pm = map fst acc @ map fst params"
proof (induction params arbitrary: acc ev)
  case Nil
  then show ?case by (simp add: resolveParameters.simps)
next
  case (Cons p ps)
  from Cons.prems obtain v ev1 where
    1: "doExpression R (snd p) ev = Return (v, ev1)"
    and 2: "resolveParameters R ps (acc @ [(fst p, v)]) ev1 = Return (pm, ev')"
    by (auto simp: resolveParameters.simps split: result.splits if_splits)
  from Cons.IH [OF 2] show ?case by simp
qed

lemma createOp_extra_arguments:
  assumes "resolveParameters R params [] (snd (nextID ev)) = Return (paramMap, ev2)"
    and "createOpSpec paramMap ev2 = Inr (sp, used, added)"
    and "k \<in> fst ` set params" "k \<notin> set used"
  shows "createOp R name createOpSpec [ObjectExpression params] ev
           = Fail (ExtraArguments (listUnused paramMap used))"
    and "set (listUnused paramMap used) = {k \<in> fst ` set params. k \<notin> set used}"
proof -
  have keys: "map fst paramMap = map fst params"
    using resolveParameters_keys [OF assms(1)] by simp
  then have s: "fst ` set paramMap = fst ` set params"
    by (metis list.set_map)
  show u: "set (listUnused paramMap used) = {k \<in> fst ` set params. k \<notin> set used}"
    using s by (auto simp: listUnused_def)
  have "listUnused paramMap used \<noteq> []" using u assms(3,4) by auto
  then show "createOp R name createOpSpec [ObjectExpression params] ev
           = Fail (ExtraArguments (listUnused paramMap used))"
    using assms(1,2) by (simp add: createOp.simps nextID_def split: prod.splits)
qed








lemma fresh_slice_reslice0: "fresh_slice o_min arrs t \<Longrightarrow> fresh_slice o_min arrs (reslice0 t)"
  by (auto simp: fresh_slice_def reslice0_def split: prod.splits option.splits)












































text \<open>
  Claim C9.  Let the arguments of a call resolve and the registered constructor return
  a spec, having asked for the names \<open>used\<close>.  If the argument object has a property
  that is not among them, \<open>createOp\<close> fails with the extra-arguments error, which lists
  the properties not asked for; so does the call of a function, and of a method, that is
  registered with this constructor.  A failure returns no operation and no evaluator.
\<close>

theorem extra_arguments_rejected:
  assumes "resolveParameters R params [] (snd (nextID ev)) = Return (paramMap, ev2)"
    and "createOpSpec paramMap ev2 = Inr (sp, used, added)"
    and "k \<in> fst ` set params" and "k \<notin> set used"
  shows "createOp R name createOpSpec [ObjectExpression params] ev
           = Fail (ExtraArguments (listUnused paramMap used)) \<and>
         set (listUnused paramMap used) = {k \<in> fst ` set params. k \<notin> set used} \<and>
         (functionsMap R name = Some createOpSpec \<longrightarrow>
            doExpression R (CallExpression (Identifier name) [ObjectExpression params]) ev
              = Fail (ErrorCallingFunction name (ExtraArguments (listUnused paramMap used)))) \<and>
         (methodMap R name = Some createOpSpec \<longrightarrow>
            method_op R name [ObjectExpression params] ev
              = Fail (ErrorCallingMethod name (ExtraArguments (listUnused paramMap used))))"
proof -
  note c = createOp_extra_arguments
    [of R params ev paramMap ev2 createOpSpec sp used added k, OF assms]
  have f: "doExpression R (CallExpression (Identifier name) [ObjectExpression params]) ev
              = Fail (ErrorCallingFunction name (ExtraArguments (listUnused paramMap used)))"
    if "functionsMap R name = Some createOpSpec"
    using that c(1) [of name]
    by (simp add: doExpression.simps callFunction.simps function_op.simps is_Literal_def)
  have m: "method_op R name [ObjectExpression params] ev
              = Fail (ErrorCallingMethod name (ExtraArguments (listUnused paramMap used)))"
    if "methodMap R name = Some createOpSpec"
    using that c(1) [of name] by (simp add: method_op.simps)
  from c f m show ?thesis by blast
qed

theorem extra_arguments_rejected_witness:
  "resolveParameters example_registry from_mydb_foo [] (snd (nextID new_evaluator))
     = Return ([(''db'', VString ''mydb''), (''foo'', VInt 1)], snd (nextID new_evaluator)) \<and>
   createFromOpSpec [(''db'', VString ''mydb''), (''foo'', VInt 1)] (snd (nextID new_evaluator))
     = Inr (FromOpSpec ''mydb'', [''db''], []) \<and>
   ''foo'' \<in> fst ` set from_mydb_foo \<and> ''foo'' \<notin> set [''db''] \<and>
   functionsMap example_registry ''from'' = Some createFromOpSpec \<and>
   createOp example_registry ''from'' createFromOpSpec [ObjectExpression from_mydb_foo] new_evaluator
     = Fail (ExtraArguments [''foo'']) \<and>
   doExpression example_registry (CallExpression (Identifier ''from'') [ObjectExpression from_mydb_foo])
       new_evaluator
     = Fail (ErrorCallingFunction ''from'' (ExtraArguments [''foo'']))"
proof -
  have 1: "resolveParameters example_registry from_mydb_foo [] (snd (nextID new_evaluator))
     = Return ([(''db'', VString ''mydb''), (''foo'', VInt 1)], snd (nextID new_evaluator))"
    by (simp add: from_mydb_foo_def resolveParameters.simps doExpression.simps is_Literal_def
        doLiteral_def)
  have 2: "createFromOpSpec [(''db'', VString ''mydb''), (''foo'', VInt 1)] (snd (nextID new_evaluator))
     = Inr (FromOpSpec ''mydb'', [''db''], [])"
    by (simp add: createFromOpSpec_def GetRequiredString_def arguments_get_def newArguments_def Let_def)
  have 3: "''foo'' \<in> fst ` set from_mydb_foo" "''foo'' \<notin> set [''db'']"
    by (simp_all add: from_mydb_foo_def)
  have 4: "functionsMap example_registry ''from'' = Some createFromOpSpec"
    by (simp add: example_registry_def)
  have 5: "listUnused [(''db'', VString ''mydb''), (''foo'', VInt 1)] [''db''] = [''foo'']"
    by (simp add: listUnused_def)
  from extra_arguments_rejected
    [of example_registry from_mydb_foo new_evaluator "[(''db'', VString ''mydb''), (''foo'', VInt 1)]"
        "snd (nextID new_evaluator)" createFromOpSpec "FromOpSpec ''mydb''" "[''db'']" "[]" "''foo''"
        "''from''", OF 1 2 3] 4
  have "createOp example_registry ''from'' createFromOpSpec [ObjectExpression from_mydb_foo] new_evaluator
     = Fail (ExtraArguments [''foo''])"
   "doExpression example_registry (CallExpression (Identifier ''from'') [ObjectExpression from_mydb_foo])
       new_evaluator
     = Fail (ErrorCallingFunction ''from'' (ExtraArguments [''foo'']))"
    unfolding 5 by blast+
  with 1 2 3 4 show ?thesis by blast
qed

text \<open>
  Claim C10.  An array expression with no elements is an error in every state: no
  element sets the type of the array, it stays \<open>TInvalid\<close>, and \<open>doArray\<close> has no array
  for that type.  \<open>doExpression\<close> returns the error of \<open>doArray\<close>.
\<close>

theorem empty_array_is_an_error:
  "doArray R (ArrayExpression []) ev = Fail (CannotDefineArray TInvalid) \<and>
   doExpression R (ArrayExpression []) ev = Fail (CannotDefineArray TInvalid)"
  by (simp add: doExpression.simps doArray.simps doElements.simps is_Literal_def)


end
